theory Spec2Isabelle
  imports Main "HOL-Library.AList" "HOL-Library.Monad_Syntax"
begin

section \<open>JavaScript primitives used by matrix.js\<close>

text \<open>
  Every number the program handles is an integer held in a double: a \<^verbatim>\<open>parseInt\<close> of
  a digit string, or a sum, difference or product of such. A number is modelled as the
  \<^typ>\<open>int\<close> it denotes, and every operation that JavaScript rounds is followed by
  \<open>roundDouble\<close>, the rounding to the nearest double (53 significant bits, ties to the
  even significand). Negative zero is not told apart from zero: the program neither
  divides nor prints a sign for it. A magnitude from \<open>2^1024\<close> on, where JavaScript gives
  \<^verbatim>\<open>Infinity\<close>, is outside the model. Strings are \<^typ>\<open>string\<close>; a character is a code
  unit below 256.
\<close>

definition isDigit :: "char \<Rightarrow> bool" where
  \<comment> \<open>the regular expression class \<^verbatim>\<open>\d\<close>\<close>
  "isDigit ch \<longleftrightarrow> 48 \<le> (of_char ch :: nat) \<and> (of_char ch :: nat) \<le> 57"

definition isSpace :: "char \<Rightarrow> bool" where
  \<comment> \<open>white space and line terminators, as \<^verbatim>\<open>trim\<close> and \<^verbatim>\<open>\s\<close> see them:
      TAB, LF, VT, FF, CR, SP, NBSP\<close>
  "isSpace ch \<longleftrightarrow> (of_char ch :: nat) \<in> {9, 10, 11, 12, 13, 32, 160}"

definition trim :: "string \<Rightarrow> string" where
  "trim s = rev (dropWhile isSpace (rev (dropWhile isSpace s)))"

fun split :: "char \<Rightarrow> string \<Rightarrow> string list" where
  \<comment> \<open>\<^verbatim>\<open>s.split(sep)\<close> for a one-character separator; never returns the empty list\<close>
  "split sep [] = [[]]"
| "split sep (ch # cs) =
     (if ch = sep then [] # split sep cs
      else (case split sep cs of [] \<Rightarrow> [[ch]] | l # ls \<Rightarrow> (ch # l) # ls))"

definition digitChar :: "nat \<Rightarrow> char" where
  "digitChar d = char_of (48 + d)"

function showDigits :: "int \<Rightarrow> string" where
  \<comment> \<open>the decimal digits of a non-negative integer\<close>
  "showDigits n =
     (if n < 10 then [digitChar (nat n)]
      else showDigits (n div 10) @ [digitChar (nat (n mod 10))])"
  by pat_completeness auto
termination
  by (relation "measure nat") auto

declare showDigits.simps [simp del]

function bitLength :: "int \<Rightarrow> nat" where
  \<comment> \<open>the number of binary digits of a non-negative integer\<close>
  "bitLength n = (if n \<le> 0 then 0 else Suc (bitLength (n div 2)))"
  by pat_completeness auto
termination
  by (relation "measure nat") auto

declare bitLength.simps [simp del]

definition roundMagnitude :: "int \<Rightarrow> int" where
  \<comment> \<open>the double nearest to a non-negative integer: up to \<open>2^53\<close> the integer itself,
      beyond that its 53 leading bits, rounded on the bits dropped, half-way cases to the
      even significand\<close>
  "roundMagnitude a =
     (if a \<le> 2 ^ 53 then a
      else
        (let e = bitLength a - 53;
             q = a div 2 ^ e;
             r = a mod 2 ^ e;
             half = 2 ^ (e - 1)
         in (if half < r \<or> (r = half \<and> odd q) then q + 1 else q) * 2 ^ e))"

definition roundDouble :: "int \<Rightarrow> int" where
  "roundDouble x = (if x < 0 then - roundMagnitude (- x) else roundMagnitude x)"

subsection \<open>Printing a number\<close>

text \<open>
  A template literal prints a number with the fewest significant digits that read back
  as the same double; of two such digit strings the one nearer to the number, and of two
  equally near the even one. Below \<open>10^21\<close> these digits are padded with zeros to the
  length of the integer, from \<open>10^21\<close> on they are printed with an exponent. An integer
  up to \<open>2^53\<close> is printed digit for digit.
\<close>

definition candidate :: "int \<Rightarrow> int \<Rightarrow> int option" where
  \<comment> \<open>the multiple of \<open>p\<close> next to \<open>a\<close> that reads back as \<open>a\<close>, if there is one\<close>
  "candidate a p =
     (let lo = (a div p) * p;
          hi = lo + p;
          okLo = (roundMagnitude lo = a);
          okHi = (roundMagnitude hi = a)
      in if okLo \<and> okHi
         then Some (if a - lo < hi - a \<or> (a - lo = hi - a \<and> even (a div p)) then lo else hi)
         else if okLo then Some lo
         else if okHi then Some hi
         else None)"

definition shortestDecimal :: "int \<Rightarrow> int" where
  \<comment> \<open>the digits printed for the double \<open>a\<close>, zeros included, as a number: \<open>k\<close>
      significant digits are tried for \<open>k = 1, 2, \<dots>\<close>\<close>
  "shortestDecimal a =
     (if a \<le> 2 ^ 53 then a
      else
        (let e = length (showDigits a)
         in case List.map_filter (\<lambda>k. candidate a (10 ^ (e - k))) [1..<Suc e] of
              c # _ \<Rightarrow> c
            | [] \<Rightarrow> a))"

definition exponentForm :: "int \<Rightarrow> string" where
  \<comment> \<open>\<^verbatim>\<open>d.ddde+n\<close>, or \<^verbatim>\<open>de+n\<close> for a single significant digit\<close>
  "exponentForm c =
     (let ds = showDigits c;
          s = rev (dropWhile (\<lambda>ch. ch = CHR ''0'') (rev ds))
      in (case s of [] \<Rightarrow> ''0'' | [d] \<Rightarrow> [d] | d # rest \<Rightarrow> d # CHR ''.'' # rest)
           @ ''e+'' @ showDigits (int (length ds) - 1))"

definition showDouble :: "int \<Rightarrow> string" where
  \<comment> \<open>what is printed for a non-negative number\<close>
  "showDouble a =
     (let c = shortestDecimal a in if c < 10 ^ 21 then showDigits c else exponentForm c)"

definition toString :: "int \<Rightarrow> string" where
  \<comment> \<open>what a template literal \<^verbatim>\<open>${n}\<close> prints for an integer \<open>n\<close>\<close>
  "toString n = (if n < 0 then CHR ''-'' # showDouble (- n) else showDouble n)"

subsection \<open>Reading a number\<close>

definition digitsValue :: "string \<Rightarrow> int" where
  "digitsValue ds = foldl (\<lambda>acc ch. 10 * acc + int (of_char ch - 48)) 0 ds"

definition literalValue :: "string \<Rightarrow> int" where
  \<comment> \<open>the integer that a string beginning with \<^verbatim>\<open>-?\d+\<close> writes: the value of the leading
      decimal digits, negated after a minus sign\<close>
  "literalValue s =
     (case s of
        [] \<Rightarrow> 0
      | ch # cs \<Rightarrow>
          if ch = CHR ''-'' then - digitsValue (takeWhile isDigit cs)
          else digitsValue (takeWhile isDigit s))"

definition parseInt :: "string \<Rightarrow> int" where
  \<comment> \<open>\<^verbatim>\<open>parseInt\<close> on a string beginning with \<^verbatim>\<open>-?\d+\<close>, the only strings the program
      passes: the double nearest to the integer written\<close>
  "parseInt s = roundDouble (literalValue s)"

definition Number :: "string \<Rightarrow> int" where
  \<comment> \<open>\<^verbatim>\<open>Number(s)\<close> on a string of the shape \<^verbatim>\<open>-?\d+\<close>, where it agrees with
      \<^verbatim>\<open>parseInt\<close>; these are the parts of a key written for coordinates below \<open>10^21\<close>\<close>
  "Number s = parseInt s"

definition part :: "string list \<Rightarrow> nat \<Rightarrow> string" where
  \<comment> \<open>\<^verbatim>\<open>parts[i]\<close> inside a template literal: a missing index prints as \<^verbatim>\<open>undefined\<close>\<close>
  "part ps i = (if i < length ps then ps ! i else ''undefined'')"

section \<open>The sparse matrix\<close>

record matrix =
  rows :: int
  cols :: int
  elements :: "(string \<times> int) list"

text \<open>
  \<open>elements\<close> is the JavaScript object used as a dictionary, as an association list in
  insertion order: the keys are not array indices, so \<^verbatim>\<open>for (key in elements)\<close> visits
  them in the order of first insertion, and an assignment to a key already present keeps
  its place. That is \<^const>\<open>AList.update\<close>.
\<close>

definition createSparseMatrix :: "int \<Rightarrow> int \<Rightarrow> matrix" where
  "createSparseMatrix numRows numCols = \<lparr>rows = numRows, cols = numCols, elements = []\<rparr>"

definition mkKey :: "int \<Rightarrow> int \<Rightarrow> string" where
  \<comment> \<open>the template \<^verbatim>\<open>`${row},${col}`\<close>\<close>
  "mkKey row col = toString row @ CHR '','' # toString col"

definition keyCoords :: "string \<Rightarrow> int \<times> int" where
  \<comment> \<open>\<^verbatim>\<open>const [row, col] = key.split(',').map(Number)\<close> on a key of two parts of the
      shape \<^verbatim>\<open>-?\d+\<close>. On a key of another shape JavaScript yields \<^verbatim>\<open>NaN\<close> or
      \<^verbatim>\<open>undefined\<close>, which are not numbers of the model: the theorems below are about
      matrices whose keys are coordinate keys (\<open>objectKeys\<close>)\<close>
  "keyCoords key =
     (case map Number (split CHR '','' key) of
        row # col # _ \<Rightarrow> (row, col)
      | [row] \<Rightarrow> (row, 0)
      | [] \<Rightarrow> (0, 0))"

definition getMatrixElement :: "matrix \<Rightarrow> int \<Rightarrow> int \<Rightarrow> int" where
  "getMatrixElement m row col =
     (case map_of (elements m) (mkKey row col) of Some v \<Rightarrow> v | None \<Rightarrow> 0)"

definition setMatrixElement :: "matrix \<Rightarrow> int \<Rightarrow> int \<Rightarrow> int \<Rightarrow> matrix" where
  "setMatrixElement m row col val =
     (let m1 = (if row \<ge> rows m then m\<lparr>rows := roundDouble (row + 1)\<rparr> else m);
          m2 = (if col \<ge> cols m1 then m1\<lparr>cols := roundDouble (col + 1)\<rparr> else m1)
      in m2\<lparr>elements := AList.update (mkKey row col) val (elements m2)\<rparr>)"

section \<open>Errors\<close>

text \<open>
  The program throws \<^verbatim>\<open>Error\<close> objects that differ in their message only; each
  message is a constructor, and the two predicates give the kind the specification
  names for it.
\<close>

datatype error =
    NotEnoughLines
  | InvalidDimensionFormat
  | InvalidFormatAtLine nat string
  | AdditionDimensions
  | SubtractionDimensions
  | MultiplicationDimensions

fun FormatError :: "error \<Rightarrow> bool" where
  "FormatError NotEnoughLines = True"
| "FormatError InvalidDimensionFormat = True"
| "FormatError (InvalidFormatAtLine n line) = True"
| "FormatError e = False"

fun DimensionMismatch :: "error \<Rightarrow> bool" where
  "DimensionMismatch AdditionDimensions = True"
| "DimensionMismatch SubtractionDimensions = True"
| "DimensionMismatch MultiplicationDimensions = True"
| "DimensionMismatch e = False"

section \<open>Arithmetic\<close>

text \<open>
  Each \<^verbatim>\<open>for (const key in m.elements)\<close> loop is a recursion over the keys of the
  operand, reading \<^verbatim>\<open>m.elements[key]\<close> at each step. The result matrix is threaded
  through as state. The loop skips a key that the operand does not hold, as
  \<^verbatim>\<open>for\<close>-\<^verbatim>\<open>in\<close> does; the operations call the loop with the operand's own keys, so
  that branch is not taken there.
\<close>

fun copyElements :: "matrix \<Rightarrow> string list \<Rightarrow> matrix \<Rightarrow> matrix" where
  "copyElements matrix1 [] result = result"
| "copyElements matrix1 (key # keys) result =
     (case map_of (elements matrix1) key of
        None \<Rightarrow> copyElements matrix1 keys result
      | Some val \<Rightarrow>
          (case keyCoords key of
             (row, col) \<Rightarrow> copyElements matrix1 keys (setMatrixElement result row col val)))"

fun addElements :: "matrix \<Rightarrow> string list \<Rightarrow> matrix \<Rightarrow> matrix" where
  "addElements matrix2 [] result = result"
| "addElements matrix2 (key # keys) result =
     (case map_of (elements matrix2) key of
        None \<Rightarrow> addElements matrix2 keys result
      | Some val \<Rightarrow>
          (case keyCoords key of
             (row, col) \<Rightarrow>
               (let currentValue = getMatrixElement result row col
                in addElements matrix2 keys
                     (setMatrixElement result row col (roundDouble (currentValue + val))))))"

fun subtractElements :: "matrix \<Rightarrow> string list \<Rightarrow> matrix \<Rightarrow> matrix" where
  "subtractElements matrix2 [] result = result"
| "subtractElements matrix2 (key # keys) result =
     (case map_of (elements matrix2) key of
        None \<Rightarrow> subtractElements matrix2 keys result
      | Some val \<Rightarrow>
          (case keyCoords key of
             (row, col) \<Rightarrow>
               (let currentValue = getMatrixElement result row col
                in subtractElements matrix2 keys
                     (setMatrixElement result row col (roundDouble (currentValue - val))))))"

definition addMatrices :: "matrix \<Rightarrow> matrix \<Rightarrow> error + matrix" where
  "addMatrices matrix1 matrix2 =
     (if rows matrix1 \<noteq> rows matrix2 \<or> cols matrix1 \<noteq> cols matrix2
      then Inl AdditionDimensions
      else
        (let result = createSparseMatrix (rows matrix1) (cols matrix1);
             result = copyElements matrix1 (map fst (elements matrix1)) result;
             result = addElements matrix2 (map fst (elements matrix2)) result
         in Inr result))"

definition subtractMatrices :: "matrix \<Rightarrow> matrix \<Rightarrow> error + matrix" where
  "subtractMatrices matrix1 matrix2 =
     (if rows matrix1 \<noteq> rows matrix2 \<or> cols matrix1 \<noteq> cols matrix2
      then Inl SubtractionDimensions
      else
        (let result = createSparseMatrix (rows matrix1) (cols matrix1);
             result = copyElements matrix1 (map fst (elements matrix1)) result;
             result = subtractElements matrix2 (map fst (elements matrix2)) result
         in Inr result))"





subsection \<open>Multiplication without the zero test\<close>





section \<open>Well-formed matrices\<close>

text \<open>
  A matrix of the program has an \<open>elements\<close> object whose keys were all written by
  \<open>setMatrixElement\<close>. As an association list that is \<open>objectKeys\<close>: the keys are
  distinct, and each is the key of the coordinates it decodes to. \<open>withinExtents\<close> is
  the relation between stored coordinates and extents that the claims assume. The
  specification has \<open>rows\<close> and \<open>cols\<close> non-negative; where a theorem needs that, it
  says so.
\<close>

definition coordKey :: "string \<Rightarrow> bool" where
  \<comment> \<open>the key is \<^verbatim>\<open>`${row},${col}`\<close> for the integers it decodes to\<close>
  "coordKey key \<longleftrightarrow> (case keyCoords key of (row, col) \<Rightarrow> key = mkKey row col)"

definition objectKeys :: "matrix \<Rightarrow> bool" where
  \<comment> \<open>\<open>elements\<close> is an object all of whose keys were written by
      \<^const>\<open>setMatrixElement\<close>: no key occurs twice, and each is a coordinate key\<close>
  "objectKeys m \<longleftrightarrow>
     distinct (map fst (elements m)) \<and> list_all coordKey (map fst (elements m))"

definition withinExtents :: "matrix \<Rightarrow> bool" where
  \<comment> \<open>every stored coordinate \<open>(r, c)\<close> has \<open>0 \<le> r < rows\<close> and \<open>0 \<le> c < cols\<close>\<close>
  "withinExtents m \<longleftrightarrow>
     list_all (\<lambda>key. case keyCoords key of
                       (row, col) \<Rightarrow> 0 \<le> row \<and> row < rows m \<and> 0 \<le> col \<and> col < cols m)
              (map fst (elements m))"

definition validMatrix :: "matrix \<Rightarrow> bool" where
  "validMatrix m \<longleftrightarrow> objectKeys m \<and> withinExtents m"

definition insideKeys :: "int \<Rightarrow> int \<Rightarrow> string list \<Rightarrow> bool" where
  \<comment> \<open>coordinate keys of coordinates within the extents \<open>n\<close> and \<open>k\<close>\<close>
  "insideKeys n k keys \<longleftrightarrow>
     list_all (\<lambda>key. coordKey key
                 \<and> (case keyCoords key of
                       (row, col) \<Rightarrow> 0 \<le> row \<and> row < n \<and> 0 \<le> col \<and> col < k))
              keys"






section \<open>The text format\<close>

definition newline :: char where
  "newline = CHR 0x0A"

subsection \<open>The three regular expressions\<close>

text \<open>
  Each expression is anchored at the start only and is a sequence of literals and greedy
  character classes, where no class can match the character that must follow it; so the
  match is found, or not, by one pass from left to right without backtracking. A matcher
  consumes a piece of the input and returns what it captured and the rest.
\<close>

definition stops :: "(char \<Rightarrow> bool) \<Rightarrow> string \<Rightarrow> bool" where
  \<comment> \<open>the string is empty or starts with a character outside the class\<close>
  "stops P r \<longleftrightarrow> (case r of [] \<Rightarrow> True | x # _ \<Rightarrow> \<not> P x)"

definition literal :: "string \<Rightarrow> string \<Rightarrow> string option" where
  "literal lit s = (if take (length lit) s = lit then Some (drop (length lit) s) else None)"

definition digits1 :: "string \<Rightarrow> (string \<times> string) option" where
  \<comment> \<open>\<^verbatim>\<open>(\d+)\<close>\<close>
  "digits1 s =
     (if takeWhile isDigit s = [] then None
      else Some (takeWhile isDigit s, dropWhile isDigit s))"

definition signedDigits1 :: "string \<Rightarrow> (string \<times> string) option" where
  \<comment> \<open>\<^verbatim>\<open>(-?\d+)\<close>\<close>
  "signedDigits1 s =
     (case literal ''-'' s of
        Some r \<Rightarrow> map_option (\<lambda>(ds, rest). (CHR ''-'' # ds, rest)) (digits1 r)
      | None \<Rightarrow> digits1 s)"

definition spaces :: "string \<Rightarrow> string" where
  \<comment> \<open>\<^verbatim>\<open>\s*\<close>: the rest after the leading white space\<close>
  "spaces s = dropWhile isSpace s"

definition rowsRegex :: "string \<Rightarrow> string option" where
  \<comment> \<open>\<^verbatim>\<open>/^rows=(\d+)/.exec(s)\<close>: group 1, or \<open>None\<close> for \<^verbatim>\<open>null\<close>\<close>
  "rowsRegex s = do { r \<leftarrow> literal ''rows='' s; (n, r) \<leftarrow> digits1 r; Some n }"

definition colsRegex :: "string \<Rightarrow> string option" where
  \<comment> \<open>\<^verbatim>\<open>/^cols=(\d+)/.exec(s)\<close>\<close>
  "colsRegex s = do { r \<leftarrow> literal ''cols='' s; (n, r) \<leftarrow> digits1 r; Some n }"

definition elementRegex :: "string \<Rightarrow> (string \<times> string \<times> string) option" where
  \<comment> \<open>\<^verbatim>\<open>/^\((\d+),\s*(\d+),\s*(-?\d+)\)/.exec(s)\<close>: groups 1 to 3\<close>
  "elementRegex s = do {
     r \<leftarrow> literal ''('' s;
     (a, r) \<leftarrow> digits1 r;
     r \<leftarrow> literal '','' r;
     (b, r) \<leftarrow> digits1 (spaces r);
     r \<leftarrow> literal '','' r;
     (c, r) \<leftarrow> signedDigits1 (spaces r);
     r \<leftarrow> literal '')'' r;
     Some (a, b, c)
   }"

subsection \<open>Reading\<close>

text \<open>
  \<open>loadMatrixFromFile\<close> takes the content of the file; reading the file from its path
  is outside the model. \<open>loadElements\<close> is the loop over \<^verbatim>\<open>lines[i]\<close>, \<open>i\<close> from 2,
  with the lines not yet visited as a list.
\<close>

fun loadElements :: "nat \<Rightarrow> string list \<Rightarrow> matrix \<Rightarrow> error + matrix" where
  "loadElements i [] sparseMatrix = Inr sparseMatrix"
| "loadElements i (l # ls) sparseMatrix =
     (let line = trim l in
      if line = [] then loadElements (i + 1) ls sparseMatrix
      else
        (case elementRegex line of
           None \<Rightarrow> Inl (InvalidFormatAtLine (i + 1) line)
         | Some (a, b, c) \<Rightarrow>
             (let row = parseInt a; col = parseInt b; val = parseInt c
              in loadElements (i + 1) ls (setMatrixElement sparseMatrix row col val))))"

definition loadMatrixFromFile :: "string \<Rightarrow> error + matrix" where
  "loadMatrixFromFile fileContent =
     (let lines = split newline fileContent in
      if length lines < 2 then Inl NotEnoughLines
      else
        (case (rowsRegex (trim (lines ! 0)), colsRegex (trim (lines ! 1))) of
           (Some r, Some c) \<Rightarrow>
             loadElements 2 (drop 2 lines) (createSparseMatrix (parseInt r) (parseInt c))
         | _ \<Rightarrow> Inl InvalidDimensionFormat))"

subsection \<open>Writing\<close>

definition elementLine :: "string \<times> int \<Rightarrow> string" where
  "elementLine e =
     (case e of
        (key, val) \<Rightarrow>
          ''('' @ part (split CHR '','' key) 0 @ '', '' @ part (split CHR '','' key) 1 @ '', ''
            @ toString val @ '')'' @ [newline])"

definition matrixToString :: "matrix \<Rightarrow> string" where
  "matrixToString m =
     trim (''rows='' @ toString (rows m) @ [newline] @ ''cols='' @ toString (cols m) @ [newline]
           @ concat (map elementLine (elements m)))"

subsection \<open>The lines of a written matrix\<close>

text \<open>
  What \<open>matrixToString\<close> writes for a matrix with coordinate keys, line by line;
  \<open>lineLike\<close> holds of a line that trimming leaves alone and that has no line break.
\<close>

definition lineLike :: "string \<Rightarrow> bool" where
  "lineLike l \<longleftrightarrow> l \<noteq> [] \<and> \<not> isSpace (hd l) \<and> \<not> isSpace (last l) \<and> newline \<notin> set l"

definition rowsHeader :: "int \<Rightarrow> string" where
  "rowsHeader n = ''rows='' @ toString n"

definition colsHeader :: "int \<Rightarrow> string" where
  "colsHeader n = ''cols='' @ toString n"

definition tripleLine :: "int \<Rightarrow> int \<Rightarrow> int \<Rightarrow> string" where
  "tripleLine r c v = ''('' @ toString r @ '', '' @ toString c @ '', '' @ toString v @ '')''"

definition entryTriple :: "string \<times> int \<Rightarrow> int \<times> int \<times> int" where
  "entryTriple e = (case e of (key, v) \<Rightarrow> (case keyCoords key of (r, c) \<Rightarrow> (r, c, v)))"

definition entryLine :: "string \<times> int \<Rightarrow> string" where
  "entryLine e = (case entryTriple e of (r, c, v) \<Rightarrow> tripleLine r c v)"

definition textLines :: "matrix \<Rightarrow> string list" where
  "textLines m = rowsHeader (rows m) # colsHeader (cols m) # map entryLine (elements m)"

subsection \<open>The format as the specification words it\<close>

text \<open>
  The specification gives the three line formats as patterns: \<^verbatim>\<open>rows=<non-negative integer>\<close>,
  \<^verbatim>\<open>cols=<non-negative integer>\<close> and
  \<^verbatim>\<open>(<non-negative integer>, <non-negative integer>, <optionally-negative integer>)\<close>,
  where the white space after a comma may be absent or longer. The predicates below say
  that a whole line has that form. \<open>beginsWith P\<close> says that some initial piece of the
  line does.
\<close>

definition isNatLiteral :: "string \<Rightarrow> bool" where
  "isNatLiteral s \<longleftrightarrow> s \<noteq> [] \<and> list_all isDigit s"

definition isIntLiteral :: "string \<Rightarrow> bool" where
  "isIntLiteral s \<longleftrightarrow>
     (case s of [] \<Rightarrow> False | ch # cs \<Rightarrow> if ch = CHR ''-'' then isNatLiteral cs else isNatLiteral s)"

definition specRowsLine :: "string \<Rightarrow> bool" where
  "specRowsLine s \<longleftrightarrow> take 5 s = ''rows='' \<and> isNatLiteral (drop 5 s)"

definition specColsLine :: "string \<Rightarrow> bool" where
  "specColsLine s \<longleftrightarrow> take 5 s = ''cols='' \<and> isNatLiteral (drop 5 s)"

definition specElementLine :: "string \<Rightarrow> bool" where
  "specElementLine s \<longleftrightarrow>
     (case split CHR '','' s of
        [p0, p1, p2] \<Rightarrow>
          (case p0 of [] \<Rightarrow> False | ch # a \<Rightarrow> ch = CHR ''('' \<and> isNatLiteral a)
          \<and> isNatLiteral (dropWhile isSpace p1)
          \<and> p2 \<noteq> [] \<and> last p2 = CHR '')'' \<and> isIntLiteral (dropWhile isSpace (butlast p2))
      | _ \<Rightarrow> False)"

definition beginsWith :: "(string \<Rightarrow> bool) \<Rightarrow> string \<Rightarrow> bool" where
  "beginsWith P s \<longleftrightarrow> list_ex (\<lambda>n. P (take n s)) [0..<Suc (length s)]"

definition formatProblem ::
  "(string \<Rightarrow> bool) \<Rightarrow> (string \<Rightarrow> bool) \<Rightarrow> (string \<Rightarrow> bool) \<Rightarrow> string \<Rightarrow> bool" where
  \<comment> \<open>the four conditions under which parsing is to fail, for given line formats\<close>
  "formatProblem rowsLine colsLine elemLine text \<longleftrightarrow>
     (let lines = split newline text in
      length lines < 2
      \<or> \<not> rowsLine (trim (lines ! 0))
      \<or> \<not> colsLine (trim (lines ! 1))
      \<or> list_ex (\<lambda>l. trim l \<noteq> [] \<and> \<not> elemLine (trim l)) (drop 2 lines))"

subsection \<open>The element lines of a text\<close>

definition headerOf :: "string \<Rightarrow> (int \<times> int) option" where
  \<comment> \<open>the extents that lines 1 and 2 declare\<close>
  "headerOf text =
     (let lines = split newline text in
      if length lines < 2 then None
      else
        (case (rowsRegex (trim (lines ! 0)), colsRegex (trim (lines ! 1))) of
           (Some r, Some c) \<Rightarrow> Some (parseInt r, parseInt c)
         | _ \<Rightarrow> None))"

definition nonblank :: "string list \<Rightarrow> string list" where
  "nonblank ls = filter (\<lambda>l. l \<noteq> []) (map trim ls)"

definition elementLines :: "string \<Rightarrow> string list" where
  \<comment> \<open>the lines after the second that are not blank, trimmed, in file order\<close>
  "elementLines text = nonblank (drop 2 (split newline text))"

definition tripleOf :: "string \<Rightarrow> (int \<times> int \<times> int) option" where
  "tripleOf line =
     map_option (\<lambda>(a, b, c). (parseInt a, parseInt b, parseInt c)) (elementRegex line)"

definition elementTriples :: "string \<Rightarrow> (int \<times> int \<times> int) list" where
  "elementTriples text = List.map_filter tripleOf (elementLines text)"

definition wellFormedText :: "string \<Rightarrow> bool" where
  "wellFormedText text \<longleftrightarrow>
     headerOf text \<noteq> None \<and> list_all (\<lambda>l. elementRegex l \<noteq> None) (elementLines text)"

definition lastValue :: "int \<Rightarrow> int \<Rightarrow> (int \<times> int \<times> int) list \<Rightarrow> int option" where
  \<comment> \<open>the value of the last triple at coordinate \<open>(r, c)\<close>\<close>
  "lastValue r c ts =
     (case filter (\<lambda>(r', c', v). r' = r \<and> c' = c) (rev ts) of
        [] \<Rightarrow> None
      | (r', c', v) # _ \<Rightarrow> Some v)"

definition setTriple :: "matrix \<Rightarrow> int \<times> int \<times> int \<Rightarrow> matrix" where
  "setTriple m t = (case t of (r, c, v) \<Rightarrow> setMatrixElement m r c v)"

subsection \<open>The numbers a text writes\<close>

text \<open>
  \<open>headerOf\<close> and \<open>elementTriples\<close> hold the numbers as the program reads them, each
  rounded to a double. \<open>writtenHeader\<close> and \<open>writtenTriples\<close> hold the integers that the
  digits of the text write. \<open>exactNumbers\<close> says that these are in the range where the
  two agree and where a coordinate has a successor: extents and values up to \<open>2^53\<close> in
  magnitude, coordinates below \<open>2^53\<close>.
\<close>

definition writtenHeader :: "string \<Rightarrow> (int \<times> int) option" where
  "writtenHeader text =
     (let lines = split newline text in
      if length lines < 2 then None
      else
        (case (rowsRegex (trim (lines ! 0)), colsRegex (trim (lines ! 1))) of
           (Some r, Some c) \<Rightarrow> Some (literalValue r, literalValue c)
         | _ \<Rightarrow> None))"

definition writtenTriple :: "string \<Rightarrow> (int \<times> int \<times> int) option" where
  "writtenTriple line =
     map_option (\<lambda>(a, b, c). (literalValue a, literalValue b, literalValue c))
       (elementRegex line)"

definition writtenTriples :: "string \<Rightarrow> (int \<times> int \<times> int) list" where
  "writtenTriples text = List.map_filter writtenTriple (elementLines text)"

definition exactTriple :: "int \<times> int \<times> int \<Rightarrow> bool" where
  "exactTriple t \<longleftrightarrow> (case t of (r, c, v) \<Rightarrow> r < 2 ^ 53 \<and> c < 2 ^ 53 \<and> \<bar>v\<bar> \<le> 2 ^ 53)"

definition exactNumbers :: "string \<Rightarrow> bool" where
  "exactNumbers text \<longleftrightarrow>
     (case writtenHeader text of None \<Rightarrow> True | Some (R, C) \<Rightarrow> R \<le> 2 ^ 53 \<and> C \<le> 2 ^ 53)
     \<and> list_all exactTriple (writtenTriples text)"

section \<open>The operations on a store\<close>

text \<open>
  In the program a matrix is an object, passed by reference and written in place. Here
  the store is the list of the matrix objects allocated so far, and a reference is an
  index into it. \<open>heap_createSparseMatrix\<close> allocates; \<open>heap_setMatrixElement\<close> writes
  to the object a reference points to. Each operation below is the source function once
  more, with every read and write going through the store. The keys that a
  \<^verbatim>\<open>for (key in m.elements)\<close> loop visits are fixed when the loop starts, and a key
  that is no longer present when its turn comes is skipped. A matrix object and its
  \<open>elements\<close> object are one cell of the store: \<^verbatim>\<open>createSparseMatrix\<close> allocates both
  together and no function stores a reference to an \<open>elements\<close> object anywhere else.
\<close>

type_synonym ref = nat

type_synonym heap = "matrix list"

definition heap_createSparseMatrix :: "int \<Rightarrow> int \<Rightarrow> heap \<Rightarrow> ref \<times> heap" where
  "heap_createSparseMatrix numRows numCols h =
     (length h, h @ [createSparseMatrix numRows numCols])"

definition heap_getMatrixElement :: "ref \<Rightarrow> int \<Rightarrow> int \<Rightarrow> heap \<Rightarrow> int" where
  "heap_getMatrixElement matrix row col h = getMatrixElement (h ! matrix) row col"

definition heap_setMatrixElement :: "ref \<Rightarrow> int \<Rightarrow> int \<Rightarrow> int \<Rightarrow> heap \<Rightarrow> heap" where
  "heap_setMatrixElement matrix row col val h =
     h[matrix := setMatrixElement (h ! matrix) row col val]"

fun heap_copyElements :: "ref \<Rightarrow> ref \<Rightarrow> string list \<Rightarrow> heap \<Rightarrow> heap" where
  "heap_copyElements matrix1 result [] h = h"
| "heap_copyElements matrix1 result (key # keys) h =
     (case map_of (elements (h ! matrix1)) key of
        None \<Rightarrow> heap_copyElements matrix1 result keys h
      | Some val \<Rightarrow>
          (case keyCoords key of
             (row, col) \<Rightarrow>
               heap_copyElements matrix1 result keys (heap_setMatrixElement result row col val h)))"

fun heap_addElements :: "ref \<Rightarrow> ref \<Rightarrow> string list \<Rightarrow> heap \<Rightarrow> heap" where
  "heap_addElements matrix2 result [] h = h"
| "heap_addElements matrix2 result (key # keys) h =
     (case map_of (elements (h ! matrix2)) key of
        None \<Rightarrow> heap_addElements matrix2 result keys h
      | Some val \<Rightarrow>
          (case keyCoords key of
             (row, col) \<Rightarrow>
               (let currentValue = heap_getMatrixElement result row col h
                in heap_addElements matrix2 result keys
                     (heap_setMatrixElement result row col (roundDouble (currentValue + val)) h))))"

fun heap_subtractElements :: "ref \<Rightarrow> ref \<Rightarrow> string list \<Rightarrow> heap \<Rightarrow> heap" where
  "heap_subtractElements matrix2 result [] h = h"
| "heap_subtractElements matrix2 result (key # keys) h =
     (case map_of (elements (h ! matrix2)) key of
        None \<Rightarrow> heap_subtractElements matrix2 result keys h
      | Some val \<Rightarrow>
          (case keyCoords key of
             (row, col) \<Rightarrow>
               (let currentValue = heap_getMatrixElement result row col h
                in heap_subtractElements matrix2 result keys
                     (heap_setMatrixElement result row col (roundDouble (currentValue - val)) h))))"

definition heap_addMatrices :: "ref \<Rightarrow> ref \<Rightarrow> heap \<Rightarrow> (error + ref) \<times> heap" where
  "heap_addMatrices matrix1 matrix2 h =
     (if rows (h ! matrix1) \<noteq> rows (h ! matrix2) \<or> cols (h ! matrix1) \<noteq> cols (h ! matrix2)
      then (Inl AdditionDimensions, h)
      else
        (case heap_createSparseMatrix (rows (h ! matrix1)) (cols (h ! matrix1)) h of
           (result, h) \<Rightarrow>
             (let h = heap_copyElements matrix1 result (map fst (elements (h ! matrix1))) h;
                  h = heap_addElements matrix2 result (map fst (elements (h ! matrix2))) h
              in (Inr result, h))))"

definition heap_subtractMatrices :: "ref \<Rightarrow> ref \<Rightarrow> heap \<Rightarrow> (error + ref) \<times> heap" where
  "heap_subtractMatrices matrix1 matrix2 h =
     (if rows (h ! matrix1) \<noteq> rows (h ! matrix2) \<or> cols (h ! matrix1) \<noteq> cols (h ! matrix2)
      then (Inl SubtractionDimensions, h)
      else
        (case heap_createSparseMatrix (rows (h ! matrix1)) (cols (h ! matrix1)) h of
           (result, h) \<Rightarrow>
             (let h = heap_copyElements matrix1 result (map fst (elements (h ! matrix1))) h;
                  h = heap_subtractElements matrix2 result (map fst (elements (h ! matrix2))) h
              in (Inr result, h))))"

function heap_multiplyRow ::
  "int \<Rightarrow> int \<Rightarrow> int \<Rightarrow> ref \<Rightarrow> ref \<Rightarrow> int \<Rightarrow> heap \<Rightarrow> heap" where
  "heap_multiplyRow val row col matrix2 result k h =
     (if k < cols (h ! matrix2) then
        (let otherValue = heap_getMatrixElement matrix2 col k h
         in heap_multiplyRow val row col matrix2 result (k + 1)
              (if otherValue \<noteq> 0
               then (let currentValue = heap_getMatrixElement result row k h
                     in heap_setMatrixElement result row k
                          (roundDouble (currentValue + roundDouble (val * otherValue))) h)
               else h))
      else h)"
  by pat_completeness auto
termination
proof (relation "measure (\<lambda>(val, row, col, matrix2, result, k, h). nat (cols (h ! matrix2) - k))")
  show "wf (measure (\<lambda>(val, row, col, matrix2, result, k, h). nat (cols (h ! matrix2) - k)))"
    by simp
next
  fix val row col :: int and matrix2 result :: ref and k :: int and h :: heap and otherValue :: int
  assume k: "k < cols (h ! matrix2)"
  let ?h' = "if otherValue \<noteq> 0
             then (let currentValue = heap_getMatrixElement result row k h
                   in heap_setMatrixElement result row k
                          (roundDouble (currentValue + roundDouble (val * otherValue))) h)
             else h"
  have "cols (?h' ! matrix2) = cols (h ! matrix2)"
    using k
    by (cases "result < length h")
       (auto simp: heap_setMatrixElement_def Let_def nth_list_update setMatrixElement_def
          list_update_beyond)
  with k show "((val, row, col, matrix2, result, k + 1, ?h'), (val, row, col, matrix2, result, k, h))
      \<in> measure (\<lambda>(val, row, col, matrix2, result, k, h). nat (cols (h ! matrix2) - k))"
    by simp
qed

declare heap_multiplyRow.simps [simp del]

fun heap_multiplyElements :: "ref \<Rightarrow> ref \<Rightarrow> ref \<Rightarrow> string list \<Rightarrow> heap \<Rightarrow> heap" where
  "heap_multiplyElements matrix1 matrix2 result [] h = h"
| "heap_multiplyElements matrix1 matrix2 result (key # keys) h =
     (case map_of (elements (h ! matrix1)) key of
        None \<Rightarrow> heap_multiplyElements matrix1 matrix2 result keys h
      | Some val \<Rightarrow>
          (case keyCoords key of
             (row, col) \<Rightarrow>
               heap_multiplyElements matrix1 matrix2 result keys
                 (heap_multiplyRow val row col matrix2 result 0 h)))"

definition heap_multiplyMatrices :: "ref \<Rightarrow> ref \<Rightarrow> heap \<Rightarrow> (error + ref) \<times> heap" where
  "heap_multiplyMatrices matrix1 matrix2 h =
     (if cols (h ! matrix1) \<noteq> rows (h ! matrix2) then (Inl MultiplicationDimensions, h)
      else
        (case heap_createSparseMatrix (rows (h ! matrix1)) (cols (h ! matrix2)) h of
           (result, h) \<Rightarrow>
             (let h = heap_multiplyElements matrix1 matrix2 result
                        (map fst (elements (h ! matrix1))) h
              in (Inr result, h))))"

definition inputsKept :: "heap \<Rightarrow> ref \<Rightarrow> ref \<Rightarrow> (error + ref) \<times> heap \<Rightarrow> bool" where
  \<comment> \<open>\<open>out\<close> is the outcome and the store after an operation on \<open>matrix1\<close> and \<open>matrix2\<close>
      started in store \<open>h\<close>: every object of \<open>h\<close> is as it was, a failure leaves the
      store as it was, and a result is a reference that \<open>h\<close> did not hold\<close>
  "inputsKept h matrix1 matrix2 out \<longleftrightarrow>
     take (length h) (snd out) = h
     \<and> snd out ! matrix1 = h ! matrix1 \<and> snd out ! matrix2 = h ! matrix2
     \<and> (case fst out of
           Inl e \<Rightarrow> DimensionMismatch e \<and> snd out = h
         | Inr result \<Rightarrow>
             result = length h \<and> result \<noteq> matrix1 \<and> result \<noteq> matrix2
             \<and> length (snd out) = length h + 1)"

section \<open>Sample inputs\<close>

definition sampleA :: matrix where
  "sampleA = \<lparr>rows = 2, cols = 3, elements = [(''0,0'', 1), (''1,2'', 2), (''0,2'', 0)]\<rparr>"


definition sampleC :: matrix where
  "sampleC = \<lparr>rows = 2, cols = 2, elements = [(''1,0'', 4), (''0,1'', -1)]\<rparr>"

definition sampleD :: matrix where
  "sampleD = \<lparr>rows = 2, cols = 3, elements = [(''1,2'', 7), (''1,0'', -3)]\<rparr>"

fun joinLines :: "string list \<Rightarrow> string" where
  "joinLines [] = []"
| "joinLines [l] = l"
| "joinLines (l # ls) = l @ newline # joinLines ls"

definition sampleText :: string where
  "sampleText = joinLines [''rows=2'', ''cols=2'', ''(0, 1, 5)'', '' '', ''(4,3,-7)'', ''(0,  1, 6) x'']"

definition sampleBad :: string where
  "sampleBad = joinLines [''rows=2'', ''cols=2'', ''(0, 1, 5)'', ''(4;3;-7)'']"

definition sampleTrailing :: string where
  "sampleTrailing = joinLines [''rows=2abc'', ''cols=2.5'', ''(0, 1, 5) junk'']"





definition sampleThree :: matrix where
  "sampleThree = \<lparr>rows = 1, cols = 1, elements = [(''0,0'', 3)]\<rparr>"

definition sampleBeyond :: string where
  "sampleBeyond = joinLines [''rows=1'', ''cols=1'', ''(9007199254740992, 0, 1)'']"

definition sampleNeighbours :: string where
  "sampleNeighbours =
     joinLines [''rows=1'', ''cols=1'', ''(9007199254740992,0,1)'', ''(9007199254740992,0,5)'',
                ''(9007199254740993,0,2)'']"

definition sampleHeap :: heap where
  "sampleHeap = [sampleA, sampleD, sampleC]"

section \<open>Numbers up to \<open>2^53\<close>\<close>

lemma roundDouble_id: "\<bar>x\<bar> \<le> 2 ^ 53 \<Longrightarrow> roundDouble x = x"
  by (auto simp: roundDouble_def roundMagnitude_def)

lemma isDigit_digitChar: "d < 10 \<Longrightarrow> isDigit (digitChar d)"
  by (simp add: isDigit_def digitChar_def)

lemma digitChar_value: "d < 10 \<Longrightarrow> (of_char (digitChar d) :: nat) - 48 = d"
  by (simp add: digitChar_def)

lemma showDigits_digits: "list_all isDigit (showDigits n)"
proof (induction n rule: showDigits.induct)
  case (1 n)
  have "nat (n mod 10) < 10" by simp
  with 1 show ?case
    by (subst showDigits.simps) (auto simp: isDigit_digitChar)
qed

lemma showDigits_nonempty: "showDigits n \<noteq> []"
  by (subst showDigits.simps) simp

lemma digitsValue_snoc:
  "digitsValue (ds @ [ch]) = 10 * digitsValue ds + int (of_char ch - 48)"
  by (simp add: digitsValue_def)

lemma digitsValue_nonneg: "0 \<le> digitsValue ds"
  by (induction ds rule: rev_induct) (simp_all add: digitsValue_snoc, simp add: digitsValue_def)

lemma digitsValue_showDigits: "0 \<le> n \<Longrightarrow> digitsValue (showDigits n) = n"
proof (induction n rule: showDigits.induct)
  case (1 n)
  show ?case
  proof (cases "n < 10")
    case True
    with 1 have "nat n < 10" by simp
    with True 1 show ?thesis
      by (subst showDigits.simps) (simp add: digitsValue_def digitChar_value)
  next
    case False
    with 1 have "digitsValue (showDigits (n div 10)) = n div 10" by simp
    moreover have "nat (n mod 10) < 10" by simp
    ultimately show ?thesis using False
      by (subst showDigits.simps) (simp add: digitsValue_snoc digitChar_value)
  qed
qed

lemma takeWhile_all: "list_all P xs \<Longrightarrow> takeWhile P xs = xs"
  by (induction xs) auto

lemma hd_showDigits_not_minus: "hd (showDigits n) \<noteq> CHR ''-''"
  using showDigits_digits [of n] showDigits_nonempty [of n]
  by (cases "showDigits n") (auto simp: isDigit_def)

lemma showDouble_plain: "a \<le> 2 ^ 53 \<Longrightarrow> showDouble a = showDigits a"
  by (simp add: showDouble_def shortestDecimal_def)

lemma toString_plain:
  "\<bar>n\<bar> \<le> 2 ^ 53 \<Longrightarrow>
   toString n = (if n < 0 then CHR ''-'' # showDigits (- n) else showDigits n)"
  by (auto simp: toString_def showDouble_plain)

lemma literalValue_toString: "\<bar>n\<bar> \<le> 2 ^ 53 \<Longrightarrow> literalValue (toString n) = n"
proof (cases "n < 0")
  case True
  assume "\<bar>n\<bar> \<le> 2 ^ 53"
  with True show ?thesis
    by (simp add: literalValue_def toString_plain takeWhile_all showDigits_digits
        digitsValue_showDigits)
next
  case False
  assume b: "\<bar>n\<bar> \<le> 2 ^ 53"
  obtain ch cs where s: "showDigits n = ch # cs"
    using showDigits_nonempty [of n] by (cases "showDigits n") auto
  have "ch \<noteq> CHR ''-''" using hd_showDigits_not_minus [of n] s by simp
  moreover have "takeWhile isDigit (ch # cs) = ch # cs"
    using showDigits_digits [of n] s takeWhile_all by metis
  ultimately show ?thesis using False s digitsValue_showDigits [of n] b
    by (simp add: literalValue_def toString_plain)
qed

lemma parseInt_toString: "\<bar>n\<bar> \<le> 2 ^ 53 \<Longrightarrow> parseInt (toString n) = n"
  by (simp add: parseInt_def literalValue_toString roundDouble_id)

lemma toString_no_comma: "\<bar>n\<bar> \<le> 2 ^ 53 \<Longrightarrow> CHR '','' \<notin> set (toString n)"
  using showDigits_digits [of n] showDigits_digits [of "- n"]
  by (auto simp: toString_plain list_all_iff isDigit_def)

lemma split_nonempty: "split sep s \<noteq> []"
  by (induction s) (auto split: list.splits)

lemma split_no_sep: "sep \<notin> set s \<Longrightarrow> split sep s = [s]"
  by (induction s) auto

lemma split_append: "sep \<notin> set a \<Longrightarrow> split sep (a @ sep # b) = a # split sep b"
  by (induction a) auto

lemma split_mkKey:
  "\<bar>r\<bar> \<le> 2 ^ 53 \<Longrightarrow> \<bar>c\<bar> \<le> 2 ^ 53 \<Longrightarrow> split CHR '','' (mkKey r c) = [toString r, toString c]"
  by (simp add: mkKey_def split_append split_no_sep toString_no_comma)

lemma keyCoords_mkKey:
  "\<bar>r\<bar> \<le> 2 ^ 53 \<Longrightarrow> \<bar>c\<bar> \<le> 2 ^ 53 \<Longrightarrow> keyCoords (mkKey r c) = (r, c)"
  by (simp add: keyCoords_def split_mkKey Number_def parseInt_toString)

lemma mkKey_inject:
  "\<bar>r\<bar> \<le> 2 ^ 53 \<Longrightarrow> \<bar>c\<bar> \<le> 2 ^ 53 \<Longrightarrow> \<bar>r'\<bar> \<le> 2 ^ 53 \<Longrightarrow> \<bar>c'\<bar> \<le> 2 ^ 53 \<Longrightarrow>
   mkKey r c = mkKey r' c' \<longleftrightarrow> r = r' \<and> c = c'"
  by (metis keyCoords_mkKey prod.inject)

section \<open>Extents under element writes\<close>

lemma rows_setMatrixElement:
  "rows (setMatrixElement m r c v) = (if r \<ge> rows m then roundDouble (r + 1) else rows m)"
  by (simp add: setMatrixElement_def Let_def)

lemma cols_setMatrixElement:
  "cols (setMatrixElement m r c v) = (if c \<ge> cols m then roundDouble (c + 1) else cols m)"
  by (simp add: setMatrixElement_def Let_def)

lemma elements_setMatrixElement:
  "elements (setMatrixElement m r c v) = AList.update (mkKey r c) v (elements m)"
  by (simp add: setMatrixElement_def Let_def)

lemma rows_set_exact:
  "0 \<le> r \<Longrightarrow> r < 2 ^ 53 \<Longrightarrow>
   rows (setMatrixElement m r c v) = (if r \<ge> rows m then r + 1 else rows m)"
  by (simp add: rows_setMatrixElement roundDouble_id)

lemma cols_set_exact:
  "0 \<le> c \<Longrightarrow> c < 2 ^ 53 \<Longrightarrow>
   cols (setMatrixElement m r c v) = (if c \<ge> cols m then c + 1 else cols m)"
  by (simp add: cols_setMatrixElement roundDouble_id)

text \<open>
  C6, as amended. A write at \<open>(r, c)\<close> with \<open>0 \<le> r < 2^53\<close> and \<open>0 \<le> c < 2^53\<close> grows
  the row extent to \<open>r + 1\<close> when \<open>r \<ge> rows\<close> and the column extent to \<open>c + 1\<close> when
  \<open>c \<ge> cols\<close>, never decreases either extent, and a write at \<open>(4, 4)\<close> into a fresh 1 by 1
  matrix gives extents 5 and 5.
\<close>

theorem set_grows_extents:
  assumes "0 \<le> r" and "r < 2 ^ 53" and "0 \<le> c" and "c < 2 ^ 53"
  shows "(r \<ge> rows m \<longrightarrow> rows (setMatrixElement m r c v) = r + 1)
       \<and> (c \<ge> cols m \<longrightarrow> cols (setMatrixElement m r c v) = c + 1)
       \<and> rows m \<le> rows (setMatrixElement m r c v)
       \<and> cols m \<le> cols (setMatrixElement m r c v)
       \<and> rows (setMatrixElement (createSparseMatrix 1 1) 4 4 9) = 5
       \<and> cols (setMatrixElement (createSparseMatrix 1 1) 4 4 9) = 5"
  using assms
  by (simp add: rows_set_exact cols_set_exact rows_setMatrixElement cols_setMatrixElement
      roundDouble_id createSparseMatrix_def)

theorem set_grows_extents_witness:
  "(0::int) \<le> 7 \<and> (7::int) < 2 ^ 53 \<and> (0::int) \<le> 9 \<and> (9::int) < 2 ^ 53
   \<and> rows (setMatrixElement (createSparseMatrix 2 3) 7 9 (-4)) = 8
   \<and> cols (setMatrixElement (createSparseMatrix 2 3) 7 9 (-4)) = 10"
  using set_grows_extents [of 7 9 "createSparseMatrix 2 3" "-4"]
  by (simp add: createSparseMatrix_def)

text \<open>
  C6 as the specification states it, for every non-negative \<open>r\<close>, fails at \<open>r = 2^53\<close>:
  the row extent of a fresh 1 by 1 matrix is below \<open>r\<close>, and the write leaves it at
  \<open>2^53\<close>, which is not \<open>r + 1\<close>; the stored row is then not below the extent.
\<close>

theorem set_at_two_to_53_does_not_pass_row:
  "(0::int) \<le> 9007199254740992
   \<and> 9007199254740992 \<ge> rows (createSparseMatrix 1 1)
   \<and> rows (setMatrixElement (createSparseMatrix 1 1) 9007199254740992 0 1) = 9007199254740992
   \<and> rows (setMatrixElement (createSparseMatrix 1 1) 9007199254740992 0 1) \<noteq> 9007199254740992 + 1"
  by code_simp

section \<open>Reading and writing one element\<close>








lemma keys_set: "map fst (elements (setMatrixElement m r c v)) =
  (if mkKey r c \<in> set (map fst (elements m)) then map fst (elements m)
   else map fst (elements m) @ [mkKey r c])"
  by (simp add: elements_setMatrixElement update_keys)

lemma coordKey_mkKey: "\<bar>r\<bar> \<le> 2 ^ 53 \<Longrightarrow> \<bar>c\<bar> \<le> 2 ^ 53 \<Longrightarrow> coordKey (mkKey r c)"
  by (simp add: coordKey_def keyCoords_mkKey)


lemma objectKeys_create: "objectKeys (createSparseMatrix n k)"
  by (simp add: objectKeys_def createSparseMatrix_def)

lemma withinExtents_create: "withinExtents (createSparseMatrix n k)"
  by (simp add: withinExtents_def createSparseMatrix_def)

lemma validMatrix_create: "validMatrix (createSparseMatrix n k)"
  by (simp add: validMatrix_def objectKeys_create withinExtents_create)

lemma objectKeys_set:
  "objectKeys m \<Longrightarrow> coordKey (mkKey r c) \<Longrightarrow> objectKeys (setMatrixElement m r c v)"
  by (simp add: objectKeys_def keys_set)


lemma withinExtents_set:
  assumes "withinExtents m" "0 \<le> r" "r < 2 ^ 53" "0 \<le> c" "c < 2 ^ 53"
  shows "withinExtents (setMatrixElement m r c v)"
proof -
  have "list_all (\<lambda>key. case keyCoords key of
           (row, col) \<Rightarrow> 0 \<le> row \<and> row < rows (setMatrixElement m r c v)
                        \<and> 0 \<le> col \<and> col < cols (setMatrixElement m r c v))
         (map fst (elements m))"
    using assms unfolding withinExtents_def list_all_iff
    by (auto simp: rows_set_exact cols_set_exact)
  moreover have "case keyCoords (mkKey r c) of
           (row, col) \<Rightarrow> 0 \<le> row \<and> row < rows (setMatrixElement m r c v)
                        \<and> 0 \<le> col \<and> col < cols (setMatrixElement m r c v)"
    using assms(2-5) by (simp add: keyCoords_mkKey rows_set_exact cols_set_exact)
  ultimately show ?thesis
    unfolding withinExtents_def by (simp add: keys_set)
qed

lemma setMatrixElement_valid:
  "validMatrix m \<Longrightarrow> 0 \<le> r \<Longrightarrow> r < 2 ^ 53 \<Longrightarrow> 0 \<le> c \<Longrightarrow> c < 2 ^ 53 \<Longrightarrow>
   validMatrix (setMatrixElement m r c v)"
  by (simp add: validMatrix_def objectKeys_set withinExtents_set coordKey_mkKey)

section \<open>The element loops on a valid result\<close>



lemma insideKeys_coordKeys: "insideKeys n k keys \<Longrightarrow> list_all coordKey keys"
  unfolding insideKeys_def list_all_iff by auto







section \<open>Values of sums and differences\<close>












section \<open>The inner loop of the product\<close>




section \<open>The outer loop of the product\<close>








section \<open>Values of products\<close>

subsection \<open>From a sum over stored keys to a sum over the inner index\<close>






subsection \<open>Magnitudes\<close>








subsection \<open>The product of two matrices\<close>







section \<open>The three regular expressions on strings of known shape\<close>

lemma literal_append: "literal lit (lit @ r) = Some r"
  by (simp add: literal_def)

lemma literal_SomeD: "literal lit s = Some r \<Longrightarrow> s = lit @ r"
  by (metis append_take_drop_id literal_def option.distinct(1) option.inject)

lemma stops_simps [simp]: "stops P []" "stops P (x # xs) \<longleftrightarrow> \<not> P x"
  by (simp_all add: stops_def)

lemma takeWhile_stops: "list_all P xs \<Longrightarrow> stops P r \<Longrightarrow> takeWhile P (xs @ r) = xs"
  by (induction xs) (auto simp: stops_def split: list.splits)

lemma dropWhile_stops: "list_all P xs \<Longrightarrow> stops P r \<Longrightarrow> dropWhile P (xs @ r) = r"
  by (induction xs) (auto simp: stops_def split: list.splits)

lemma stops_dropWhile: "stops P (dropWhile P s)"
  by (induction s) auto

lemma list_all_takeWhile: "list_all P (takeWhile P s)"
  by (induction s) auto

lemma digits1_append:
  "isNatLiteral ds \<Longrightarrow> stops isDigit r \<Longrightarrow> digits1 (ds @ r) = Some (ds, r)"
  by (simp add: digits1_def isNatLiteral_def takeWhile_stops dropWhile_stops)

lemma digits1_SomeD:
  "digits1 s = Some (ds, r) \<Longrightarrow> s = ds @ r \<and> isNatLiteral ds \<and> stops isDigit r"
  by (auto simp: digits1_def isNatLiteral_def list_all_takeWhile stops_dropWhile split: if_splits)

lemma spaces_append:
  "list_all isSpace w \<Longrightarrow> stops isSpace r \<Longrightarrow> spaces (w @ r) = r"
  by (simp add: spaces_def dropWhile_stops)

lemma spaces_decompose: "\<exists>w. s = w @ spaces s \<and> list_all isSpace w"
  by (rule exI [of _ "takeWhile isSpace s"]) (simp add: spaces_def list_all_takeWhile)

lemma digit_not_space: "isDigit ch \<Longrightarrow> \<not> isSpace ch"
  by (auto simp: isDigit_def isSpace_def)

lemma digit_not_minus: "isDigit ch \<Longrightarrow> ch \<noteq> CHR ''-''"
  by (auto simp: isDigit_def)

lemma isNatLiteral_Cons: "isNatLiteral s \<Longrightarrow> \<exists>ch cs. s = ch # cs \<and> isDigit ch"
  by (cases s) (auto simp: isNatLiteral_def)

lemma isIntLiteral_cases:
  "isIntLiteral c \<longleftrightarrow> isNatLiteral c \<or> (\<exists>ds. c = CHR ''-'' # ds \<and> isNatLiteral ds)"
  by (cases c) (auto simp: isIntLiteral_def isNatLiteral_def dest: digit_not_minus)

lemma signedDigits1_append:
  assumes "isIntLiteral c" "stops isDigit r"
  shows "signedDigits1 (c @ r) = Some (c, r)"
proof -
  from assms(1) consider "isNatLiteral c" | ds where "c = CHR ''-'' # ds" "isNatLiteral ds"
    by (auto simp: isIntLiteral_cases)
  then show ?thesis
  proof cases
    case 1
    then obtain ch cs where c: "c = ch # cs" "isDigit ch" using isNatLiteral_Cons by blast
    then have "literal ''-'' (c @ r) = None"
      using digit_not_minus by (auto simp: literal_def)
    with 1 assms(2) show ?thesis by (simp add: signedDigits1_def digits1_append)
  next
    case 2
    then have "literal ''-'' (c @ r) = Some (ds @ r)" by (simp add: literal_def)
    with 2 assms(2) show ?thesis by (simp add: signedDigits1_def digits1_append)
  qed
qed

lemma signedDigits1_SomeD:
  assumes "signedDigits1 s = Some (c, r)"
  shows "s = c @ r \<and> isIntLiteral c \<and> stops isDigit r"
proof (cases "literal ''-'' s")
  case None
  with assms have "digits1 s = Some (c, r)" by (simp add: signedDigits1_def)
  then show ?thesis using digits1_SomeD isIntLiteral_cases by blast
next
  case (Some t)
  then have s: "s = ''-'' @ t" by (rule literal_SomeD)
  from assms Some obtain ds where "digits1 t = Some (ds, r)" "c = CHR ''-'' # ds"
    by (auto simp: signedDigits1_def)
  then show ?thesis using digits1_SomeD [of t ds r] s isIntLiteral_cases by auto
qed

lemma stops_digit_nat: "isNatLiteral b \<Longrightarrow> stops isSpace (b @ r)"
  using isNatLiteral_Cons [of b] digit_not_space by (auto simp: stops_def)

lemma stops_space_int: "isIntLiteral c \<Longrightarrow> stops isSpace (c @ r)"
  using isNatLiteral_Cons digit_not_space
  by (fastforce simp: isIntLiteral_cases stops_def isSpace_def)

lemma elementRegex_shape:
  assumes "isNatLiteral a" "list_all isSpace w1" "isNatLiteral b" "list_all isSpace w2"
    "isIntLiteral c"
  shows "elementRegex (''('' @ a @ '','' @ w1 @ b @ '','' @ w2 @ c @ '')'' @ rest) = Some (a, b, c)"
proof -
  have d: "stops isDigit ('','' @ x)" "stops isDigit ('')'' @ x)" for x
    by (simp_all add: isDigit_def)
  have 1: "digits1 (a @ '','' @ w1 @ b @ '','' @ w2 @ c @ '')'' @ rest)
      = Some (a, '','' @ w1 @ b @ '','' @ w2 @ c @ '')'' @ rest)"
    using assms(1) d(1) by (rule digits1_append)
  have 2: "spaces (w1 @ b @ '','' @ w2 @ c @ '')'' @ rest) = b @ '','' @ w2 @ c @ '')'' @ rest"
    using assms(2) stops_digit_nat [OF assms(3)] by (rule spaces_append)
  have 3: "digits1 (b @ '','' @ w2 @ c @ '')'' @ rest) = Some (b, '','' @ w2 @ c @ '')'' @ rest)"
    using assms(3) d(1) by (rule digits1_append)
  have 4: "spaces (w2 @ c @ '')'' @ rest) = c @ '')'' @ rest"
    using assms(4) stops_space_int [OF assms(5)] by (rule spaces_append)
  have 5: "signedDigits1 (c @ '')'' @ rest) = Some (c, '')'' @ rest)"
    using assms(5) d(2) by (rule signedDigits1_append)
  have l: "literal ''('' (''('' @ x) = Some x" "literal '','' ('','' @ x) = Some x"
    "literal '')'' ('')'' @ x) = Some x" for x
    by (rule literal_append)+
  show ?thesis
    unfolding elementRegex_def by (simp only: l 1 2 3 4 5 bind.simps prod.case)
qed

lemma elementRegex_SomeD:
  assumes "elementRegex s = Some (a, b, c)"
  shows "\<exists>w1 w2 rest. s = ''('' @ a @ '','' @ w1 @ b @ '','' @ w2 @ c @ '')'' @ rest
           \<and> isNatLiteral a \<and> list_all isSpace w1 \<and> isNatLiteral b \<and> list_all isSpace w2
           \<and> isIntLiteral c"
proof -
  from assms obtain r1 r2 r3 r4 r5 r6 r7 where
    s1: "literal ''('' s = Some r1" and
    s2: "digits1 r1 = Some (a, r2)" and
    s3: "literal '','' r2 = Some r3" and
    s4: "digits1 (spaces r3) = Some (b, r4)" and
    s5: "literal '','' r4 = Some r5" and
    s6: "signedDigits1 (spaces r5) = Some (c, r6)" and
    s7: "literal '')'' r6 = Some r7"
    unfolding elementRegex_def
    by (auto simp: bind_eq_Some_conv)
  obtain w1 where w1: "r3 = w1 @ spaces r3" "list_all isSpace w1"
    using spaces_decompose by blast
  obtain w2 where w2: "r5 = w2 @ spaces r5" "list_all isSpace w2"
    using spaces_decompose by blast
  have "s = ''('' @ a @ '','' @ w1 @ b @ '','' @ w2 @ c @ '')'' @ r7"
    using literal_SomeD [OF s1] digits1_SomeD [OF s2] literal_SomeD [OF s3] digits1_SomeD [OF s4]
      literal_SomeD [OF s5] signedDigits1_SomeD [OF s6] literal_SomeD [OF s7] w1(1) w2(1)
    by (metis append_assoc)
  then show ?thesis
    using digits1_SomeD [OF s2] digits1_SomeD [OF s4] signedDigits1_SomeD [OF s6] w1(2) w2(2)
    by blast
qed

lemma digit_props: "isDigit ch \<Longrightarrow> \<not> isSpace ch \<and> ch \<noteq> newline \<and> ch \<noteq> CHR '',''"
  by (auto simp: isDigit_def isSpace_def newline_def)

section \<open>The loop over element lines\<close>

lemma nonblank_Cons:
  "nonblank (l # ls) = (if trim l = [] then nonblank ls else trim l # nonblank ls)"
  by (simp add: nonblank_def)

lemma loadElements_ok:
  "list_all (\<lambda>l. elementRegex l \<noteq> None) (nonblank ls) \<Longrightarrow>
   loadElements i ls m = Inr (foldl setTriple m (List.map_filter tripleOf (nonblank ls)))"
proof (induction ls arbitrary: i m)
  case Nil
  then show ?case by (simp add: nonblank_def map_filter_simps)
next
  case (Cons l ls)
  show ?case
  proof (cases "trim l = []")
    case True
    with Cons show ?thesis by (simp add: nonblank_Cons)
  next
    case False
    with Cons.prems obtain a b c where m: "elementRegex (trim l) = Some (a, b, c)"
      and rest: "list_all (\<lambda>l. elementRegex l \<noteq> None) (nonblank ls)"
      by (auto simp: nonblank_Cons)
    from m have t: "tripleOf (trim l) = Some (parseInt a, parseInt b, parseInt c)"
      by (simp add: tripleOf_def)
    show ?thesis
      using False m t Cons.IH [OF rest]
      by (simp add: nonblank_Cons map_filter_simps setTriple_def Let_def)
  qed
qed

lemma loadElements_fail:
  "\<not> list_all (\<lambda>l. elementRegex l \<noteq> None) (nonblank ls) \<Longrightarrow>
   \<exists>n line. loadElements i ls m = Inl (InvalidFormatAtLine n line)"
proof (induction ls arbitrary: i m)
  case Nil
  then show ?case by (simp add: nonblank_def)
next
  case (Cons l ls)
  show ?case
  proof (cases "trim l = []")
    case True
    with Cons show ?thesis by (simp add: nonblank_Cons)
  next
    case False
    show ?thesis
    proof (cases "elementRegex (trim l)")
      case None
      with False show ?thesis by simp
    next
      case (Some t)
      obtain a b c where t: "t = (a, b, c)" by (cases t)
      from Some False Cons.prems t
      have "\<not> list_all (\<lambda>l. elementRegex l \<noteq> None) (nonblank ls)"
        by (simp add: nonblank_Cons)
      from Cons.IH [OF this] Some False t show ?thesis
        by (simp add: Let_def)
    qed
  qed
qed

lemma elementLines_nonblank: "elementLines text = nonblank (drop 2 (split newline text))"
  by (simp add: elementLines_def nonblank_def)

lemma load_wellFormed:
  assumes "wellFormedText text" "headerOf text = Some (R, C)"
  shows "loadMatrixFromFile text = Inr (foldl setTriple (createSparseMatrix R C) (elementTriples text))"
proof -
  let ?lines = "split newline text"
  from assms(2) have len: "\<not> length ?lines < 2"
    by (auto simp: headerOf_def Let_def split: if_splits)
  from assms(2) len obtain r c where rc: "rowsRegex (trim (?lines ! 0)) = Some r"
      "colsRegex (trim (?lines ! 1)) = Some c" "R = parseInt r" "C = parseInt c"
    by (auto simp: headerOf_def Let_def split: option.splits)
  from assms(1) have "list_all (\<lambda>l. elementRegex l \<noteq> None) (nonblank (drop 2 ?lines))"
    by (simp add: wellFormedText_def elementLines_nonblank)
  from loadElements_ok [OF this] len rc show ?thesis
    by (simp add: loadMatrixFromFile_def Let_def elementTriples_def elementLines_nonblank)
qed

lemma load_cases:
  "loadMatrixFromFile text =
     (if length (split newline text) < 2 then Inl NotEnoughLines
      else if headerOf text = None then Inl InvalidDimensionFormat
      else loadElements 2 (drop 2 (split newline text))
             (createSparseMatrix (fst (the (headerOf text))) (snd (the (headerOf text)))))"
  by (auto simp: loadMatrixFromFile_def headerOf_def Let_def split: option.splits)

lemma load_not_wellFormed:
  assumes "\<not> wellFormedText text"
  shows "\<exists>e. loadMatrixFromFile text = Inl e \<and> FormatError e"
proof (cases "headerOf text")
  case None
  then show ?thesis by (auto simp: load_cases)
next
  case (Some hc)
  then have len: "\<not> length (split newline text) < 2"
    by (auto simp: headerOf_def Let_def split: if_splits)
  from assms Some have "\<not> list_all (\<lambda>l. elementRegex l \<noteq> None) (nonblank (drop 2 (split newline text)))"
    by (simp add: wellFormedText_def elementLines_nonblank)
  from loadElements_fail [OF this] obtain n line where
    "loadElements 2 (drop 2 (split newline text))
             (createSparseMatrix (fst (the (headerOf text))) (snd (the (headerOf text))))
      = Inl (InvalidFormatAtLine n line)" by blast
  with Some len show ?thesis by (simp add: load_cases)
qed

section \<open>A sequence of writes\<close>

lemma Max_insert_insert:
  fixes x y :: int
  assumes "finite A"
  shows "Max (insert x (insert y A)) = Max (insert (max x y) A)"
proof (cases "A = {}")
  case True
  then show ?thesis by simp
next
  case False
  with assms show ?thesis by (simp add: max.assoc)
qed

lemma rows_foldl_setTriple:
  "list_all (\<lambda>(r, c, v). 0 \<le> r \<and> r < 2 ^ 53) ts \<Longrightarrow>
   rows (foldl setTriple m ts) = Max (insert (rows m) ((\<lambda>(r, c, v). r + 1) ` set ts))"
proof (induction ts arbitrary: m)
  case Nil
  then show ?case by simp
next
  case (Cons t ts)
  obtain r c v where t: "t = (r, c, v)" by (cases t)
  let ?f = "\<lambda>(r, c, v). r + (1::int)"
  from Cons.prems have b: "0 \<le> r" "r < 2 ^ 53"
    and rest: "list_all (\<lambda>(r, c, v). 0 \<le> r \<and> r < 2 ^ 53) ts"
    by (simp_all add: t)
  have step: "rows (setTriple m t) = max (rows m) (r + 1)"
    using b by (simp add: t setTriple_def rows_set_exact)
  have "Max (insert (rows m) (?f ` set (t # ts))) = Max (insert (rows m) (insert (r + 1) (?f ` set ts)))"
    by (simp only: t list.set image_insert prod.case)
  also have "\<dots> = Max (insert (max (rows m) (r + 1)) (?f ` set ts))"
    by (rule Max_insert_insert) simp
  finally show ?case
    using Cons.IH [OF rest, of "setTriple m t"] step by (simp only: foldl.simps)
qed

lemma cols_foldl_setTriple:
  "list_all (\<lambda>(r, c, v). 0 \<le> c \<and> c < 2 ^ 53) ts \<Longrightarrow>
   cols (foldl setTriple m ts) = Max (insert (cols m) ((\<lambda>(r, c, v). c + 1) ` set ts))"
proof (induction ts arbitrary: m)
  case Nil
  then show ?case by simp
next
  case (Cons t ts)
  obtain r c v where t: "t = (r, c, v)" by (cases t)
  let ?f = "\<lambda>(r, c, v). c + (1::int)"
  from Cons.prems have b: "0 \<le> c" "c < 2 ^ 53"
    and rest: "list_all (\<lambda>(r, c, v). 0 \<le> c \<and> c < 2 ^ 53) ts"
    by (simp_all add: t)
  have step: "cols (setTriple m t) = max (cols m) (c + 1)"
    using b by (simp add: t setTriple_def cols_set_exact)
  have "Max (insert (cols m) (?f ` set (t # ts))) = Max (insert (cols m) (insert (c + 1) (?f ` set ts)))"
    by (simp only: t list.set image_insert prod.case)
  also have "\<dots> = Max (insert (max (cols m) (c + 1)) (?f ` set ts))"
    by (rule Max_insert_insert) simp
  finally show ?case
    using Cons.IH [OF rest, of "setTriple m t"] step by (simp only: foldl.simps)
qed

lemma lastValue_snoc:
  "lastValue r c (ts @ [(r', c', v)]) = (if r' = r \<and> c' = c then Some v else lastValue r c ts)"
  by (simp add: lastValue_def)

lemma map_of_foldl_setTriple:
  assumes "list_all (\<lambda>(r, c, v). \<bar>r\<bar> \<le> 2 ^ 53 \<and> \<bar>c\<bar> \<le> 2 ^ 53) ts"
    and "\<bar>r\<bar> \<le> 2 ^ 53" "\<bar>c\<bar> \<le> 2 ^ 53"
  shows "map_of (elements (foldl setTriple m ts)) (mkKey r c) =
     (case lastValue r c ts of Some v \<Rightarrow> Some v | None \<Rightarrow> map_of (elements m) (mkKey r c))"
  using assms(1)
proof (induction ts rule: rev_induct)
  case Nil
  then show ?case by (simp add: lastValue_def)
next
  case (snoc t ts)
  obtain r' c' v where t: "t = (r', c', v)" by (cases t)
  from snoc.prems have b: "\<bar>r'\<bar> \<le> 2 ^ 53" "\<bar>c'\<bar> \<le> 2 ^ 53"
    and rest: "list_all (\<lambda>(r, c, v). \<bar>r\<bar> \<le> 2 ^ 53 \<and> \<bar>c\<bar> \<le> 2 ^ 53) ts"
    by (simp_all add: t)
  have "mkKey r c = mkKey r' c' \<longleftrightarrow> r' = r \<and> c' = c"
    using mkKey_inject [OF assms(2,3) b] by auto
  then show ?case
    using snoc.IH [OF rest]
    by (simp add: t lastValue_snoc setTriple_def elements_setMatrixElement update_conv')
qed

lemma lastValue_member: "lastValue r c ts = Some v \<Longrightarrow> (r, c, v) \<in> set ts"
proof (induction ts rule: rev_induct)
  case Nil
  then show ?case by (simp add: lastValue_def)
next
  case (snoc t ts)
  obtain r' c' v' where t: "t = (r', c', v')" by (cases t)
  with snoc show ?case by (auto simp: lastValue_snoc split: if_splits)
qed

lemma validMatrix_foldl_setTriple:
  "validMatrix m \<Longrightarrow> list_all (\<lambda>(r, c, v). 0 \<le> r \<and> r < 2 ^ 53 \<and> 0 \<le> c \<and> c < 2 ^ 53) ts \<Longrightarrow>
   validMatrix (foldl setTriple m ts)"
  by (induction ts arbitrary: m) (auto simp: setTriple_def setMatrixElement_valid)

lemma set_map_filter:
  "set (List.map_filter f xs) = {y. \<exists>x\<in>set xs. f x = Some y}"
  by (induction xs) (auto split: option.splits)

subsection \<open>Written numbers and read numbers\<close>

lemma literalValue_nat: "isNatLiteral a \<Longrightarrow> 0 \<le> literalValue a"
  using isNatLiteral_Cons [of a] digit_not_minus
  by (auto simp: literalValue_def digitsValue_nonneg)

lemma roundMagnitude_nonneg:
  assumes "0 \<le> a"
  shows "0 \<le> roundMagnitude a"
proof -
  have q: "0 \<le> a div 2 ^ e" for e :: nat
    using assms by (simp add: pos_imp_zdiv_nonneg_iff)
  show ?thesis
    unfolding roundMagnitude_def Let_def using assms q by auto
qed

lemma roundDouble_nonneg: "0 \<le> x \<Longrightarrow> 0 \<le> roundDouble x"
  by (simp add: roundDouble_def roundMagnitude_nonneg)

lemma parseInt_nat: "isNatLiteral a \<Longrightarrow> 0 \<le> parseInt a"
  by (simp add: parseInt_def literalValue_nat roundDouble_nonneg)

lemma parseInt_exact: "\<bar>literalValue a\<bar> \<le> 2 ^ 53 \<Longrightarrow> parseInt a = literalValue a"
  by (simp add: parseInt_def roundDouble_id)

lemma writtenTriple_nonneg:
  assumes "writtenTriple l = Some (r, c, v)"
  shows "0 \<le> r \<and> 0 \<le> c"
proof -
  from assms obtain a b d where m: "elementRegex l = Some (a, b, d)"
    and rc: "r = literalValue a" "c = literalValue b"
    by (auto simp: writtenTriple_def)
  from elementRegex_SomeD [OF m] have "isNatLiteral a" "isNatLiteral b" by auto
  with rc show ?thesis by (simp add: literalValue_nat)
qed

lemma writtenTriples_nonneg:
  "list_all (\<lambda>(r, c, v). 0 \<le> r \<and> 0 \<le> c) (writtenTriples text)"
  unfolding writtenTriples_def list_all_iff
  by (auto simp: set_map_filter dest: writtenTriple_nonneg)

lemma tripleOf_exact:
  assumes "writtenTriple l = Some t" "exactTriple t"
  shows "tripleOf l = Some t"
proof -
  obtain r c v where t: "t = (r, c, v)" by (cases t)
  from assms(1) obtain a b d where m: "elementRegex l = Some (a, b, d)"
    and rc: "r = literalValue a" "c = literalValue b" "v = literalValue d"
    by (auto simp: writtenTriple_def t)
  have "0 \<le> r" "0 \<le> c" using writtenTriple_nonneg [of l r c v] assms(1) t by simp_all
  with assms(2) have "\<bar>r\<bar> \<le> 2 ^ 53" "\<bar>c\<bar> \<le> 2 ^ 53" "\<bar>v\<bar> \<le> 2 ^ 53"
    by (simp_all add: exactTriple_def t)
  then show ?thesis
    using m rc by (simp add: tripleOf_def t parseInt_exact)
qed

lemma map_filter_exact:
  "list_all exactTriple (List.map_filter writtenTriple ls) \<Longrightarrow>
   List.map_filter tripleOf ls = List.map_filter writtenTriple ls"
proof (induction ls)
  case Nil
  then show ?case by (simp add: List.map_filter_simps)
next
  case (Cons l ls)
  show ?case
  proof (cases "writtenTriple l")
    case None
    then have "tripleOf l = None" by (simp add: writtenTriple_def tripleOf_def)
    with None Cons show ?thesis by (simp add: List.map_filter_simps)
  next
    case (Some t)
    with Cons.prems have "exactTriple t" by (simp add: List.map_filter_simps)
    with Some have "tripleOf l = Some t" by (rule tripleOf_exact)
    with Some Cons show ?thesis by (simp add: List.map_filter_simps)
  qed
qed

lemma elementTriples_exact:
  "exactNumbers text \<Longrightarrow> elementTriples text = writtenTriples text"
  unfolding elementTriples_def writtenTriples_def exactNumbers_def
  by (simp add: map_filter_exact)

lemma headerOf_exact:
  assumes "exactNumbers text"
  shows "headerOf text = writtenHeader text"
proof (cases "writtenHeader text")
  case None
  then show ?thesis
    by (auto simp: writtenHeader_def headerOf_def Let_def split: if_splits option.splits)
next
  case (Some p)
  obtain R C where p: "p = (R, C)" by (cases p)
  from Some obtain r c where rc:
    "rowsRegex (trim (split newline text ! 0)) = Some r"
    "colsRegex (trim (split newline text ! 1)) = Some c"
    "R = literalValue r" "C = literalValue c" and len: "\<not> length (split newline text) < 2"
    by (auto simp: writtenHeader_def Let_def p split: if_splits option.splits)
  have "isNatLiteral r" "isNatLiteral c"
    using rc(1,2) by (auto simp: rowsRegex_def colsRegex_def isNatLiteral_def
        split: Option.bind_splits dest!: digits1_SomeD literal_SomeD)
  then have "0 \<le> R" "0 \<le> C" using rc(3,4) by (simp_all add: literalValue_nat)
  moreover from assms Some have "R \<le> 2 ^ 53" "C \<le> 2 ^ 53"
    by (simp_all add: exactNumbers_def p)
  ultimately have "parseInt r = R" "parseInt c = C"
    using rc(3,4) by (simp_all add: parseInt_exact)
  with rc len Some show ?thesis
    by (simp add: headerOf_def Let_def p)
qed

section \<open>What reading produces\<close>

lemma headerOf_wellFormed: "wellFormedText text \<Longrightarrow> \<exists>R C. headerOf text = Some (R, C)"
  by (auto simp: wellFormedText_def)

lemma load_Inr_wellFormed: "loadMatrixFromFile text = Inr m \<Longrightarrow> wellFormedText text"
  using load_not_wellFormed [of "text"] by auto

lemma exactNumbers_coordinates:
  "exactNumbers text \<Longrightarrow>
   list_all (\<lambda>(r, c, v). 0 \<le> r \<and> r < 2 ^ 53 \<and> 0 \<le> c \<and> c < 2 ^ 53) (writtenTriples text)"
  using writtenTriples_nonneg [of "text"]
  unfolding exactNumbers_def list_all_iff exactTriple_def by auto

lemma load_exact:
  assumes "wellFormedText text" "exactNumbers text" "writtenHeader text = Some (R, C)"
  shows "loadMatrixFromFile text =
           Inr (foldl setTriple (createSparseMatrix R C) (writtenTriples text))"
  using load_wellFormed [OF assms(1), of R C] headerOf_exact [OF assms(2)] assms(3)
    elementTriples_exact [OF assms(2)]
  by simp

text \<open>
  C8, as amended. For a well-formed text whose numbers are exact (extents and values up
  to \<open>2^53\<close> in magnitude, coordinates below \<open>2^53\<close>), declaring extents \<open>R\<close> and \<open>C\<close>,
  reading succeeds; the matrix is the fresh \<open>R\<close> by \<open>C\<close> matrix after writing the element
  lines in file order; no key is stored twice; the value stored at a coordinate is that of
  the last line with that coordinate, and no value is stored at a coordinate up to \<open>2^53\<close>
  that no line has.
\<close>

theorem repeated_coordinate_last_wins:
  assumes "wellFormedText text" and "exactNumbers text" and "writtenHeader text = Some (R, C)"
  shows "\<exists>m. loadMatrixFromFile text = Inr m
           \<and> m = foldl setTriple (createSparseMatrix R C) (writtenTriples text)
           \<and> distinct (map fst (elements m))
           \<and> (\<forall>r c v. lastValue r c (writtenTriples text) = Some v \<longrightarrow>
                 getMatrixElement m r c = v)
           \<and> (\<forall>r c. \<bar>r\<bar> \<le> 2 ^ 53 \<and> \<bar>c\<bar> \<le> 2 ^ 53 \<longrightarrow>
                 map_of (elements m) (mkKey r c) = lastValue r c (writtenTriples text))"
proof -
  let ?ts = "writtenTriples text"
  let ?m = "foldl setTriple (createSparseMatrix R C) ?ts"
  note co = exactNumbers_coordinates [OF assms(2)]
  have ab: "list_all (\<lambda>(r, c, v). \<bar>r\<bar> \<le> 2 ^ 53 \<and> \<bar>c\<bar> \<le> 2 ^ 53) ?ts"
    using co unfolding list_all_iff by auto
  have "loadMatrixFromFile text = Inr ?m" using assms by (rule load_exact)
  moreover have "distinct (map fst (elements ?m))"
    using validMatrix_foldl_setTriple [OF validMatrix_create co]
    by (simp add: validMatrix_def objectKeys_def)
  moreover have mo: "map_of (elements ?m) (mkKey r c) = lastValue r c ?ts"
    if "\<bar>r\<bar> \<le> 2 ^ 53" "\<bar>c\<bar> \<le> 2 ^ 53" for r c
    using map_of_foldl_setTriple [OF ab that]
    by (simp add: createSparseMatrix_def split: option.splits)
  moreover have "getMatrixElement ?m r c = v" if l: "lastValue r c ?ts = Some v" for r c v
  proof -
    from lastValue_member [OF l] ab have "\<bar>r\<bar> \<le> 2 ^ 53" "\<bar>c\<bar> \<le> 2 ^ 53"
      unfolding list_all_iff by auto
    from mo [OF this] l show ?thesis by (simp add: getMatrixElement_def)
  qed
  ultimately show ?thesis by blast
qed

theorem repeated_coordinate_last_wins_witness:
  "wellFormedText sampleText \<and> exactNumbers sampleText \<and> writtenHeader sampleText = Some (2, 2)
   \<and> lastValue 0 1 (writtenTriples sampleText) = Some 6
   \<and> (\<exists>m. loadMatrixFromFile sampleText = Inr m
          \<and> m = foldl setTriple (createSparseMatrix 2 2) (writtenTriples sampleText)
          \<and> distinct (map fst (elements m))
          \<and> (\<forall>r c v. lastValue r c (writtenTriples sampleText) = Some v \<longrightarrow>
                getMatrixElement m r c = v)
          \<and> (\<forall>r c. \<bar>r\<bar> \<le> 2 ^ 53 \<and> \<bar>c\<bar> \<le> 2 ^ 53 \<longrightarrow>
                map_of (elements m) (mkKey r c) = lastValue r c (writtenTriples sampleText)))"
proof -
  have w: "wellFormedText sampleText" by code_simp
  have e: "exactNumbers sampleText" by code_simp
  have h: "writtenHeader sampleText = Some (2, 2)" by code_simp
  have l: "lastValue 0 1 (writtenTriples sampleText) = Some 6" by code_simp
  show ?thesis using w e h l repeated_coordinate_last_wins [OF w e h] by blast
qed

text \<open>
  C8 as the specification states it fails on a text with rows from \<open>2^53\<close> on: the third
  and the fourth line below write the coordinate \<open>(9007199254740992, 0)\<close>, the last of
  them with the value 5; the fifth line writes the row \<open>9007199254740993\<close>, which is read
  as \<open>9007199254740992\<close>, so the matrix holds 2 at that coordinate.
\<close>

theorem repeated_coordinate_overwritten_by_neighbour:
  "wellFormedText sampleNeighbours
   \<and> writtenTriples sampleNeighbours
       = [(9007199254740992, 0, 1), (9007199254740992, 0, 5), (9007199254740993, 0, 2)]
   \<and> lastValue 9007199254740992 0 (writtenTriples sampleNeighbours) = Some 5
   \<and> loadMatrixFromFile sampleNeighbours
       = Inr \<lparr>rows = 9007199254740992, cols = 1, elements = [(''9007199254740992,0'', 2)]\<rparr>
   \<and> getMatrixElement
         \<lparr>rows = 9007199254740992, cols = 1, elements = [(''9007199254740992,0'', 2)]\<rparr>
         9007199254740992 0 = 2"
  by code_simp

text \<open>
  C10, as amended. For a well-formed text whose numbers are exact, declaring extents
  \<open>R\<close> and \<open>C\<close>, reading succeeds whatever the coordinates of the element lines are, and
  the row extent of the matrix is the maximum of \<open>R\<close> and of \<open>r + 1\<close> over the element
  lines, the column extent the maximum of \<open>C\<close> and of \<open>c + 1\<close>.
\<close>

theorem header_extents_exceeded:
  assumes "wellFormedText text" and "exactNumbers text" and "writtenHeader text = Some (R, C)"
  shows "\<exists>m. loadMatrixFromFile text = Inr m
           \<and> rows m = Max (insert R ((\<lambda>(r, c, v). r + 1) ` set (writtenTriples text)))
           \<and> cols m = Max (insert C ((\<lambda>(r, c, v). c + 1) ` set (writtenTriples text)))"
proof -
  note co = exactNumbers_coordinates [OF assms(2)]
  have r: "list_all (\<lambda>(r, c, v). 0 \<le> r \<and> r < 2 ^ 53) (writtenTriples text)"
    and c: "list_all (\<lambda>(r, c, v). 0 \<le> c \<and> c < 2 ^ 53) (writtenTriples text)"
    using co unfolding list_all_iff by auto
  show ?thesis
    using load_exact [OF assms]
    by (simp add: rows_foldl_setTriple [OF r] cols_foldl_setTriple [OF c] createSparseMatrix_def)
qed

theorem header_extents_exceeded_witness:
  "wellFormedText sampleText \<and> exactNumbers sampleText \<and> writtenHeader sampleText = Some (2, 2)
   \<and> writtenTriples sampleText = [(0, 1, 5), (4, 3, -7), (0, 1, 6)]
   \<and> (\<exists>m. loadMatrixFromFile sampleText = Inr m
          \<and> rows m = Max (insert 2 ((\<lambda>(r, c, v). r + 1) ` set (writtenTriples sampleText)))
          \<and> cols m = Max (insert 2 ((\<lambda>(r, c, v). c + 1) ` set (writtenTriples sampleText))))"
proof -
  have w: "wellFormedText sampleText" by code_simp
  have e: "exactNumbers sampleText" by code_simp
  have h: "writtenHeader sampleText = Some (2, 2)" by code_simp
  have t: "writtenTriples sampleText = [(0, 1, 5), (4, 3, -7), (0, 1, 6)]" by code_simp
  show ?thesis using w e h t header_extents_exceeded [OF w e h] by blast
qed

text \<open>
  C10 as the specification states it fails at the row \<open>2^53\<close>: the text is well formed,
  declares one row and writes an element in row \<open>9007199254740992\<close>; the row extent of
  the matrix read is \<open>9007199254740992\<close>, not the maximum of 1 and \<open>9007199254740993\<close>.
\<close>

theorem header_exceeded_short_of_successor:
  "wellFormedText sampleBeyond
   \<and> writtenHeader sampleBeyond = Some (1, 1)
   \<and> writtenTriples sampleBeyond = [(9007199254740992, 0, 1)]
   \<and> loadMatrixFromFile sampleBeyond
       = Inr \<lparr>rows = 9007199254740992, cols = 1, elements = [(''9007199254740992,0'', 1)]\<rparr>
   \<and> rows \<lparr>rows = 9007199254740992, cols = 1, elements = [(''9007199254740992,0'', 1)]\<rparr>
       \<noteq> max 1 (9007199254740992 + 1)"
  by code_simp

section \<open>The operations on a store and on values\<close>

lemma heap_get_new:
  "heap_getMatrixElement (length h0) r c (h0 @ [m]) = getMatrixElement m r c"
  by (simp add: heap_getMatrixElement_def)

lemma heap_set_new:
  "heap_setMatrixElement (length h0) r c v (h0 @ [m]) = h0 @ [setMatrixElement m r c v]"
  by (simp add: heap_setMatrixElement_def)

lemma heap_copyElements_new:
  "src < length h0 \<Longrightarrow>
   heap_copyElements src (length h0) keys (h0 @ [m]) = h0 @ [copyElements (h0 ! src) keys m]"
  by (induction keys arbitrary: m)
     (auto simp: nth_append heap_set_new split: option.splits prod.splits)

lemma heap_addElements_new:
  "src < length h0 \<Longrightarrow>
   heap_addElements src (length h0) keys (h0 @ [m]) = h0 @ [addElements (h0 ! src) keys m]"
  by (induction keys arbitrary: m)
     (auto simp: nth_append heap_set_new heap_get_new split: option.splits prod.splits)

lemma heap_subtractElements_new:
  "src < length h0 \<Longrightarrow>
   heap_subtractElements src (length h0) keys (h0 @ [m]) = h0 @ [subtractElements (h0 ! src) keys m]"
  by (induction keys arbitrary: m)
     (auto simp: nth_append heap_set_new heap_get_new split: option.splits prod.splits)

lemma heap_multiplyRow_new:
  "m2 < length h0 \<Longrightarrow>
   \<exists>m'. heap_multiplyRow val row col m2 (length h0) k (h0 @ [m]) = h0 @ [m']"
proof (induction val row col m2 "length h0" k "h0 @ [m]" arbitrary: m
    rule: heap_multiplyRow.induct)
  case (1 val row col matrix2 k)
  have old: "(h0 @ [m]) ! matrix2 = h0 ! matrix2" using "1.prems" by (simp add: nth_append)
  show ?case
  proof (cases "k < cols (h0 ! matrix2)")
    case True
    let ?other = "heap_getMatrixElement matrix2 col k (h0 @ [m])"
    show ?thesis
    proof (cases "?other = 0")
      case z: True
      have "\<exists>m'. heap_multiplyRow val row col matrix2 (length h0) (k + 1) (h0 @ [m]) = h0 @ [m']"
        using "1.hyps" [OF _ refl _ "1.prems", of m] True old z by simp
      then show ?thesis
        using True old z by (subst heap_multiplyRow.simps) (simp add: Let_def)
    next
      case nz: False
      let ?v = "roundDouble (heap_getMatrixElement (length h0) row k (h0 @ [m])
                  + roundDouble (val * ?other))"
      have "\<exists>m'. heap_multiplyRow val row col matrix2 (length h0) (k + 1)
                    (h0 @ [setMatrixElement m row k ?v]) = h0 @ [m']"
        using "1.hyps" [OF _ refl _ "1.prems", of "setMatrixElement m row k ?v"] True old nz
        by (simp add: heap_set_new Let_def)
      then show ?thesis
        using True old nz
        by (subst heap_multiplyRow.simps) (simp add: Let_def heap_set_new)
    qed
  next
    case False
    then show ?thesis
      using old by (subst heap_multiplyRow.simps) simp
  qed
qed

lemma heap_multiplyElements_new:
  "m1 < length h0 \<Longrightarrow> m2 < length h0 \<Longrightarrow>
   \<exists>m'. heap_multiplyElements m1 m2 (length h0) keys (h0 @ [m]) = h0 @ [m']"
proof (induction keys arbitrary: m)
  case Nil
  then show ?case by simp
next
  case (Cons key keys)
  show ?case
  proof (cases "map_of (elements (h0 ! m1)) key")
    case None
    then show ?thesis using Cons by (simp add: nth_append)
  next
    case (Some val)
    obtain row col where rc: "keyCoords key = (row, col)" by (cases "keyCoords key")
    obtain m' where "heap_multiplyRow val row col m2 (length h0) 0 (h0 @ [m]) = h0 @ [m']"
      using heap_multiplyRow_new [OF Cons.prems(2)] by blast
    then show ?thesis
      using Cons.IH [OF Cons.prems, of m'] Some rc Cons.prems by (simp add: nth_append)
  qed
qed

lemma heap_addMatrices_pure:
  assumes "matrix1 < length h" "matrix2 < length h"
  shows "heap_addMatrices matrix1 matrix2 h =
     (case addMatrices (h ! matrix1) (h ! matrix2) of
        Inl e \<Rightarrow> (Inl e, h)
      | Inr m \<Rightarrow> (Inr (length h), h @ [m]))"
  using assms
  by (simp add: heap_addMatrices_def addMatrices_def heap_createSparseMatrix_def Let_def
      nth_append heap_copyElements_new heap_addElements_new)

lemma heap_subtractMatrices_pure:
  assumes "matrix1 < length h" "matrix2 < length h"
  shows "heap_subtractMatrices matrix1 matrix2 h =
     (case subtractMatrices (h ! matrix1) (h ! matrix2) of
        Inl e \<Rightarrow> (Inl e, h)
      | Inr m \<Rightarrow> (Inr (length h), h @ [m]))"
  using assms
  by (simp add: heap_subtractMatrices_def subtractMatrices_def heap_createSparseMatrix_def Let_def
      nth_append heap_copyElements_new heap_subtractElements_new)

lemma heap_multiplyMatrices_new:
  assumes "matrix1 < length h" "matrix2 < length h"
  shows "heap_multiplyMatrices matrix1 matrix2 h = (Inl MultiplicationDimensions, h)
       \<or> (\<exists>m. heap_multiplyMatrices matrix1 matrix2 h = (Inr (length h), h @ [m]))"
proof (cases "cols (h ! matrix1) \<noteq> rows (h ! matrix2)")
  case True
  then show ?thesis by (simp add: heap_multiplyMatrices_def)
next
  case False
  obtain m where "heap_multiplyElements matrix1 matrix2 (length h) (map fst (elements (h ! matrix1)))
        (h @ [createSparseMatrix (rows (h ! matrix1)) (cols (h ! matrix2))]) = h @ [m]"
    using heap_multiplyElements_new [OF assms] by blast
  then show ?thesis
    using False assms
    by (simp add: heap_multiplyMatrices_def heap_createSparseMatrix_def Let_def nth_append)
qed

lemma add_error: "addMatrices a b = Inl e \<Longrightarrow> DimensionMismatch e"
  by (auto simp: addMatrices_def Let_def split: if_splits)

lemma subtract_error: "subtractMatrices a b = Inl e \<Longrightarrow> DimensionMismatch e"
  by (auto simp: subtractMatrices_def Let_def split: if_splits)

lemma inputsKept_pure:
  assumes "matrix1 < length h" "matrix2 < length h"
    and "\<And>e. r = Inl e \<Longrightarrow> DimensionMismatch e"
  shows "inputsKept h matrix1 matrix2
           (case r of Inl e \<Rightarrow> (Inl e, h) | Inr m \<Rightarrow> (Inr (length h), h @ [m]))"
  using assms by (cases r) (simp_all add: inputsKept_def nth_append)

text \<open>
  C7. Started on two references into a store (which may be the same reference), each
  of the three operations leaves every matrix of that store as it was, the two inputs
  among them: extents and stored elements alike. When it fails it fails with a dimension
  mismatch and the store is as before; when it returns, the result is a reference to a
  newly allocated matrix, different from both inputs.
\<close>

theorem operations_keep_inputs:
  assumes "matrix1 < length h" and "matrix2 < length h"
  shows "inputsKept h matrix1 matrix2 (heap_addMatrices matrix1 matrix2 h)
       \<and> inputsKept h matrix1 matrix2 (heap_subtractMatrices matrix1 matrix2 h)
       \<and> inputsKept h matrix1 matrix2 (heap_multiplyMatrices matrix1 matrix2 h)"
proof -
  have "inputsKept h matrix1 matrix2 (heap_addMatrices matrix1 matrix2 h)"
    unfolding heap_addMatrices_pure [OF assms]
    using inputsKept_pure [OF assms] add_error by blast
  moreover have "inputsKept h matrix1 matrix2 (heap_subtractMatrices matrix1 matrix2 h)"
    unfolding heap_subtractMatrices_pure [OF assms]
    using inputsKept_pure [OF assms] subtract_error by blast
  moreover have "inputsKept h matrix1 matrix2 (heap_multiplyMatrices matrix1 matrix2 h)"
    using heap_multiplyMatrices_new [OF assms] assms
    by (auto simp: inputsKept_def nth_append)
  ultimately show ?thesis by blast
qed

theorem operations_keep_inputs_witness:
  "(0::nat) < length sampleHeap \<and> (1::nat) < length sampleHeap \<and> (2::nat) < length sampleHeap
   \<and> inputsKept sampleHeap 0 1 (heap_addMatrices 0 1 sampleHeap)
   \<and> inputsKept sampleHeap 0 1 (heap_subtractMatrices 0 1 sampleHeap)
   \<and> inputsKept sampleHeap 0 1 (heap_multiplyMatrices 0 1 sampleHeap)
   \<and> inputsKept sampleHeap 2 2 (heap_multiplyMatrices 2 2 sampleHeap)"
proof -
  have l: "(0::nat) < length sampleHeap" "(1::nat) < length sampleHeap"
    "(2::nat) < length sampleHeap"
    by (simp_all add: sampleHeap_def)
  show ?thesis
    using l operations_keep_inputs [OF l(1) l(2)] operations_keep_inputs [OF l(3) l(3)]
    by blast
qed

section \<open>When reading fails\<close>

lemma beginsWith_iff: "beginsWith P s \<longleftrightarrow> (\<exists>p r. s = p @ r \<and> P p)"
proof
  assume "beginsWith P s"
  then obtain n where "P (take n s)" unfolding beginsWith_def list_ex_iff by blast
  then have "s = take n s @ drop n s \<and> P (take n s)" by simp
  then show "\<exists>p r. s = p @ r \<and> P p" by blast
next
  assume "\<exists>p r. s = p @ r \<and> P p"
  then obtain p r where s: "s = p @ r" and p: "P p" by blast
  then have "length p < Suc (length s)" "P (take (length p) s)" by simp_all
  then show "beginsWith P s"
    unfolding beginsWith_def list_ex_iff by (metis atLeast_upt lessThan_iff)
qed

lemma digits1_prefix:
  assumes "isNatLiteral d"
  shows "digits1 (d @ r) \<noteq> None"
proof -
  from assms obtain ch cs where "d = ch # cs" "isDigit ch" using isNatLiteral_Cons by blast
  then show ?thesis by (simp add: digits1_def)
qed

lemma header_prefix:
  assumes "length name = 5"
  shows "(\<exists>n. Option.bind (literal name s) (\<lambda>r. Option.bind (digits1 r) (\<lambda>(n, r). Some n)) = Some n)
     \<longleftrightarrow> beginsWith (\<lambda>p. take 5 p = name \<and> isNatLiteral (drop 5 p)) s"
proof
  assume "\<exists>n. Option.bind (literal name s) (\<lambda>r. Option.bind (digits1 r) (\<lambda>(n, r). Some n)) = Some n"
  then obtain n r r' where l: "literal name s = Some r" and d: "digits1 r = Some (n, r')"
    by (auto simp: bind_eq_Some_conv)
  from literal_SomeD [OF l] digits1_SomeD [OF d]
  have "s = (name @ n) @ r'" "isNatLiteral n" by simp_all
  then show "beginsWith (\<lambda>p. take 5 p = name \<and> isNatLiteral (drop 5 p)) s"
    unfolding beginsWith_iff using assms by (intro exI [of _ "name @ n"] exI [of _ r']) simp
next
  assume "beginsWith (\<lambda>p. take 5 p = name \<and> isNatLiteral (drop 5 p)) s"
  then obtain p r where s: "s = p @ r" and t: "take 5 p = name" and d: "isNatLiteral (drop 5 p)"
    unfolding beginsWith_iff by blast
  have "p = name @ drop 5 p" using t append_take_drop_id [of 5 p] by simp
  with s have "s = name @ (drop 5 p @ r)" by (metis append_assoc)
  then have "literal name s = Some (drop 5 p @ r)" by (simp add: literal_append)
  moreover obtain n r' where "digits1 (drop 5 p @ r) = Some (n, r')"
    using digits1_prefix [OF d, of r] by (cases "digits1 (drop 5 p @ r)") auto
  ultimately show "\<exists>n. Option.bind (literal name s) (\<lambda>r. Option.bind (digits1 r) (\<lambda>(n, r). Some n)) = Some n"
    by simp
qed

lemma rowsRegex_iff: "rowsRegex s \<noteq> None \<longleftrightarrow> beginsWith specRowsLine s"
  using header_prefix [of "''rows=''" s]
  by (simp add: rowsRegex_def specRowsLine_def [abs_def])

lemma colsRegex_iff: "colsRegex s \<noteq> None \<longleftrightarrow> beginsWith specColsLine s"
  using header_prefix [of "''cols=''" s]
  by (simp add: colsRegex_def specColsLine_def [abs_def])


lemma split_single: "split sep s = [x] \<Longrightarrow> s = x"
proof (induction s arbitrary: x)
  case Nil
  then show ?case by simp
next
  case (Cons ch cs)
  show ?case
  proof (cases "ch = sep")
    case True
    with Cons.prems show ?thesis using split_nonempty [of sep cs] by simp
  next
    case False
    with Cons.prems obtain l where "split sep cs = [l]" "x = ch # l"
      using split_nonempty [of sep cs] by (auto split: list.splits)
    with Cons.IH show ?thesis by simp
  qed
qed

lemma split_Cons2:
  "split sep s = x # y # ys \<Longrightarrow> \<exists>t. s = x @ sep # t \<and> split sep t = y # ys"
proof (induction s arbitrary: x)
  case Nil
  then show ?case by simp
next
  case (Cons ch cs)
  show ?case
  proof (cases "ch = sep")
    case True
    with Cons.prems show ?thesis by simp
  next
    case False
    with Cons.prems obtain l where "split sep cs = l # y # ys" "x = ch # l"
      by (auto split: list.splits)
    with Cons.IH [of l] show ?thesis by auto
  qed
qed

lemma split_three:
  assumes "split sep s = [x, y, z]"
  shows "s = x @ sep # y @ sep # z"
proof -
  from split_Cons2 [OF assms] obtain t where t: "s = x @ sep # t" "split sep t = [y, z]" by blast
  from split_Cons2 [OF t(2)] obtain u where u: "t = y @ sep # u" "split sep u = [z]" by blast
  from split_single [OF u(2)] t(1) u(1) show ?thesis by simp
qed

lemma space_not_comma: "isSpace ch \<Longrightarrow> ch \<noteq> CHR '',''"
  by (auto simp: isSpace_def)

lemma isNatLiteral_no_comma: "isNatLiteral s \<Longrightarrow> CHR '','' \<notin> set s"
  using digit_props by (auto simp: isNatLiteral_def list_all_iff)

lemma isIntLiteral_no_comma: "isIntLiteral s \<Longrightarrow> CHR '','' \<notin> set s"
  using isNatLiteral_no_comma by (auto simp: isIntLiteral_cases)

lemma spaces_no_comma: "list_all isSpace w \<Longrightarrow> CHR '','' \<notin> set w"
  using space_not_comma by (auto simp: list_all_iff)

lemma dropWhile_spaces_nat:
  "list_all isSpace w \<Longrightarrow> isNatLiteral b \<Longrightarrow> dropWhile isSpace (w @ b) = b"
  using dropWhile_stops [of isSpace w b] stops_digit_nat [of b "[]"] by simp

lemma dropWhile_spaces_int:
  "list_all isSpace w \<Longrightarrow> isIntLiteral c \<Longrightarrow> dropWhile isSpace (w @ c) = c"
  using dropWhile_stops [of isSpace w c] stops_space_int [of c "[]"] by simp

lemma specElementLine_shape:
  assumes "isNatLiteral a" "list_all isSpace w1" "isNatLiteral b" "list_all isSpace w2"
    "isIntLiteral c"
  shows "specElementLine (''('' @ a @ '','' @ w1 @ b @ '','' @ w2 @ c @ '')'')"
proof -
  have n0: "CHR '','' \<notin> set (''('' @ a)"
    using isNatLiteral_no_comma [OF assms(1)] by simp
  have n1: "CHR '','' \<notin> set (w1 @ b)"
    using spaces_no_comma [OF assms(2)] isNatLiteral_no_comma [OF assms(3)] by simp
  have n2: "CHR '','' \<notin> set (w2 @ c @ '')'')"
    using spaces_no_comma [OF assms(4)] isIntLiteral_no_comma [OF assms(5)] by simp
  have "split CHR '','' ((''('' @ a) @ CHR '','' # (w1 @ b) @ CHR '','' # (w2 @ c @ '')''))
      = (''('' @ a) # split CHR '','' ((w1 @ b) @ CHR '','' # (w2 @ c @ '')''))"
    using n0 by (rule split_append)
  also have "split CHR '','' ((w1 @ b) @ CHR '','' # (w2 @ c @ '')''))
      = (w1 @ b) # split CHR '','' (w2 @ c @ '')'')"
    using n1 by (rule split_append)
  also have "split CHR '','' (w2 @ c @ '')'') = [w2 @ c @ '')'']"
    using n2 by (rule split_no_sep)
  finally have sp: "split CHR '','' (''('' @ a @ '','' @ w1 @ b @ '','' @ w2 @ c @ '')'')
      = [''('' @ a, w1 @ b, w2 @ c @ '')'']"
    by simp
  have bl: "butlast (w2 @ c @ '')'') = w2 @ c" "last (w2 @ c @ '')'') = CHR '')''"
    by (simp_all add: butlast_append)
  show ?thesis
    unfolding specElementLine_def sp
    using assms(1,3,5) dropWhile_spaces_nat [OF assms(2,3)] dropWhile_spaces_int [OF assms(4,5)]
    by (simp add: bl)
qed

lemma specElementLine_D:
  assumes "specElementLine p"
  shows "\<exists>a w1 b w2 c. p = ''('' @ a @ '','' @ w1 @ b @ '','' @ w2 @ c @ '')''
           \<and> isNatLiteral a \<and> list_all isSpace w1 \<and> isNatLiteral b \<and> list_all isSpace w2
           \<and> isIntLiteral c"
proof -
  from assms obtain p0 p1 p2 where sp: "split CHR '','' p = [p0, p1, p2]"
    by (auto simp: specElementLine_def split: list.splits)
  with assms obtain a where a: "p0 = CHR ''('' # a" "isNatLiteral a"
    and b: "isNatLiteral (dropWhile isSpace p1)"
    and c: "p2 \<noteq> []" "last p2 = CHR '')''" "isIntLiteral (dropWhile isSpace (butlast p2))"
    by (auto simp: specElementLine_def split: list.splits)
  let ?w1 = "takeWhile isSpace p1" and ?b = "dropWhile isSpace p1"
  let ?w2 = "takeWhile isSpace (butlast p2)" and ?c = "dropWhile isSpace (butlast p2)"
  have "butlast p2 = ?w2 @ ?c" by simp
  moreover have "p2 = butlast p2 @ '')''"
    using c(1,2) append_butlast_last_id [of p2] by simp
  ultimately have p2: "p2 = ?w2 @ ?c @ '')''" by (metis append_assoc)
  have p1: "p1 = ?w1 @ ?b" by simp
  have "p = p0 @ CHR '','' # p1 @ CHR '','' # p2" using sp by (rule split_three)
  then have "p = ''('' @ a @ '','' @ ?w1 @ ?b @ '','' @ ?w2 @ ?c @ '')''"
    using a(1) p2 by simp
  then show ?thesis
    using a(2) b c(3) list_all_takeWhile [of isSpace] by blast
qed

lemma elementRegex_iff: "elementRegex s \<noteq> None \<longleftrightarrow> beginsWith specElementLine s"
proof
  assume "elementRegex s \<noteq> None"
  then obtain a b c where "elementRegex s = Some (a, b, c)" by auto
  from elementRegex_SomeD [OF this] obtain w1 w2 rest where
    s: "s = ''('' @ a @ '','' @ w1 @ b @ '','' @ w2 @ c @ '')'' @ rest" and
    lit: "isNatLiteral a" "list_all isSpace w1" "isNatLiteral b" "list_all isSpace w2"
      "isIntLiteral c"
    by blast
  from s have "s = (''('' @ a @ '','' @ w1 @ b @ '','' @ w2 @ c @ '')'') @ rest" by simp
  with specElementLine_shape [OF lit] show "beginsWith specElementLine s"
    unfolding beginsWith_iff by blast
next
  assume "beginsWith specElementLine s"
  then obtain p r where s: "s = p @ r" and p: "specElementLine p"
    unfolding beginsWith_iff by blast
  from specElementLine_D [OF p] obtain a w1 b w2 c where
    pp: "p = ''('' @ a @ '','' @ w1 @ b @ '','' @ w2 @ c @ '')''" and
    lit: "isNatLiteral a" "list_all isSpace w1" "isNatLiteral b" "list_all isSpace w2"
      "isIntLiteral c"
    by blast
  from s pp have "s = ''('' @ a @ '','' @ w1 @ b @ '','' @ w2 @ c @ '')'' @ r" by simp
  with elementRegex_shape [OF lit, of r] show "elementRegex s \<noteq> None" by simp
qed

lemma headerOf_iff:
  "headerOf text \<noteq> None \<longleftrightarrow>
     \<not> length (split newline text) < 2
     \<and> beginsWith specRowsLine (trim (split newline text ! 0))
     \<and> beginsWith specColsLine (trim (split newline text ! 1))"
  unfolding rowsRegex_iff [symmetric] colsRegex_iff [symmetric]
  by (auto simp: headerOf_def Let_def split: option.splits)

lemma list_all_nonblank:
  "list_all P (nonblank ls) \<longleftrightarrow> \<not> list_ex (\<lambda>l. trim l \<noteq> [] \<and> \<not> P (trim l)) ls"
  by (induction ls) (auto simp: nonblank_def)

lemma wellFormedText_iff:
  "wellFormedText text \<longleftrightarrow>
     \<not> formatProblem (beginsWith specRowsLine) (beginsWith specColsLine)
         (beginsWith specElementLine) text"
  unfolding wellFormedText_def headerOf_iff elementLines_nonblank list_all_nonblank
    elementRegex_iff formatProblem_def Let_def
  by blast

text \<open>
  C1, as amended. Reading fails exactly when the text has fewer than two lines, or line 1
  (trimmed) does not begin with \<^verbatim>\<open>rows=<non-negative integer>\<close>, or line 2 (trimmed)
  does not begin with \<^verbatim>\<open>cols=<non-negative integer>\<close>, or some later line that is not
  blank does not begin (trimmed) with an element triple; every failure is a format error,
  and otherwise reading succeeds. Whatever follows such a beginning on a line is ignored.
\<close>

theorem parse_fails_exactly_on_format_problem:
  "(case loadMatrixFromFile text of
      Inl e \<Rightarrow>
        FormatError e
        \<and> formatProblem (beginsWith specRowsLine) (beginsWith specColsLine)
             (beginsWith specElementLine) text
    | Inr m \<Rightarrow>
        \<not> formatProblem (beginsWith specRowsLine) (beginsWith specColsLine)
            (beginsWith specElementLine) text)"
proof (cases "wellFormedText text")
  case True
  then obtain R C where "headerOf text = Some (R, C)" using headerOf_wellFormed by blast
  from load_wellFormed [OF True this] True show ?thesis
    by (simp add: wellFormedText_iff)
next
  case False
  from load_not_wellFormed [OF this] False show ?thesis
    by (auto simp: wellFormedText_iff)
qed

theorem parse_fails_exactly_on_format_problem_witness:
  "loadMatrixFromFile sampleBad = Inl (InvalidFormatAtLine 4 ''(4;3;-7)'')
   \<and> FormatError (InvalidFormatAtLine 4 ''(4;3;-7)'')
   \<and> formatProblem (beginsWith specRowsLine) (beginsWith specColsLine)
        (beginsWith specElementLine) sampleBad
   \<and> loadMatrixFromFile sampleText
        = Inr \<lparr>rows = 5, cols = 4, elements = [(''0,1'', 6), (''4,3'', -7)]\<rparr>
   \<and> \<not> formatProblem (beginsWith specRowsLine) (beginsWith specColsLine)
          (beginsWith specElementLine) sampleText"
proof -
  have b: "loadMatrixFromFile sampleBad = Inl (InvalidFormatAtLine 4 ''(4;3;-7)'')"
    by code_simp
  have t: "loadMatrixFromFile sampleText
      = Inr \<lparr>rows = 5, cols = 4, elements = [(''0,1'', 6), (''4,3'', -7)]\<rparr>"
    by code_simp
  show ?thesis
    using b t parse_fails_exactly_on_format_problem [of sampleBad]
      parse_fails_exactly_on_format_problem [of sampleText]
    by simp
qed

text \<open>
  The claim C1 as stated, with whole lines matching the patterns, fails: none of the
  three lines below has the form of its pattern, and the text is read without error.
\<close>

theorem parse_accepts_trailing_text:
  "loadMatrixFromFile sampleTrailing = Inr \<lparr>rows = 2, cols = 2, elements = [(''0,1'', 5)]\<rparr>
   \<and> \<not> specRowsLine ''rows=2abc'' \<and> \<not> specColsLine ''cols=2.5''
   \<and> \<not> specElementLine ''(0, 1, 5) junk''
   \<and> formatProblem specRowsLine specColsLine specElementLine sampleTrailing"
  by code_simp


end
